theory Spec2Isabelle
  imports Complex_Main "HOL-Library.Multiset"
begin

section \<open>Semantic routing: the pseudocode of PHASE2-ALGO-001 as HOL functions\<close>

text \<open>
  The routing algorithms are given as pseudocode over numbers, strings, lists and
  dictionaries. Numbers are modelled as exact reals (the decimal constants of the
  pseudocode are the rationals they denote), strings as \<open>string\<close>, dictionaries as
  association lists read with \<open>map_of\<close>, optional values (\<open>NULL\<close>) as \<open>option\<close>, and a
  raised exception as the left injection of a sum.

  Logging calls (\<open>LOG_DEBUG\<close>, \<open>LOG_WARN\<close>, ...) and the timers that only feed them have no
  effect on what a function returns and are left out. Functions the pseudocode calls but
  does not define are parameters: the fields of the records \<open>Services\<close> and
  \<open>Collaborators\<close>. The state that outlives a call (UUID generator, clock, rotation
  pointer, decision cache) is the record \<open>World\<close>, passed in and returned.
\<close>

subsection \<open>Errors and utilities\<close>

datatype exn =
    KeyError string
  | ValueError string
  | ZeroDivisionError
  | IndexError
  | ExternalError string

datatype routing_error =
    HttpError nat string
  | NoAgentsAvailableError string
  | RoutingServiceError string
  | RoutingError string
  | Unhandled exn

text \<open>\<open>CLAMP(value, min, max)\<close>, section 7.1.\<close>

definition CLAMP :: "real \<Rightarrow> real \<Rightarrow> real \<Rightarrow> real" where
  "CLAMP v mn mx = (if v < mn then mn else if v > mx then mx else v)"

text \<open>\<open>MAX(xs)\<close> of a list of numbers; an empty list has no maximum.\<close>

definition MAX_of :: "real list \<Rightarrow> exn + real" where
  "MAX_of xs = (case xs of [] \<Rightarrow> Inl (ValueError ''MAX of empty list'')
                         | y # ys \<Rightarrow> Inr (fold max ys y))"

text \<open>\<open>TRY f CATCH Exception \<Rightarrow> d\<close>: the value of the body, or the default when it raised.\<close>

definition try_or :: "real \<Rightarrow> exn + real \<Rightarrow> real" where
  "try_or d r = (case r of Inl e \<Rightarrow> d | Inr v \<Rightarrow> v)"

subsection \<open>Data model\<close>

record RecentWin =
  win_pattern_id :: string
  win_pattern_type :: string
  win_timestamp :: real
  win_success :: bool

record LatencyProfile =
  p50 :: real
  p95 :: real
  p99 :: real
  max_ms :: real

record AgentCapabilityProfile =
  agent_id :: string
  name :: string
  skills :: "string list"
  specializations :: "string list"
  success_rate_by_type :: "(string \<times> real) list"
  success_rate_default :: real
  recent_wins :: "RecentWin list"
  latency_profile :: LatencyProfile
  team_assignments :: real
  team_capacity :: real
  is_available :: bool

record RoutingConstraints =
  max_latency_ms :: "real option"
  required_security_level :: "string option"
  require_consensus :: bool
  skill_constraints :: "string list option"

record PatternRoutingRequest =
  pattern_id :: string
  pattern_query :: string
  pattern_metadata :: "(string \<times> string) list"
  pattern_embedding :: "real list option"
  preferred_agents :: "string list option"
  excluded_agents :: "string list option"
  constraints :: "RoutingConstraints option"
  explain_reasoning :: bool
  request_id :: string
  user_id :: string

record UserPreferences =
  up_preferred_agents :: "string list"
  up_excluded_agents :: "string list"

record ExecutionContext =
  ctx_user_id :: string
  session_id :: string
  time_of_day :: string
  user_preferences :: UserPreferences
  current_agent_id :: string

text \<open>
  The collaborators the pseudocode calls without defining them (stores, history queries,
  the wall clock read by the experts). They are read-only during one routing pass, so
  each is a function of its arguments; a query that may find nothing returns an option.
  Timestamps are seconds.
\<close>

record Services =
  GET_SUCCESS_RATE :: "string \<Rightarrow> string \<Rightarrow> real"
  CURRENT_TIMESTAMP :: real
  EXTRACT_SPECIALIZATIONS :: "(string \<times> string) list \<Rightarrow> string list"
  AGENT_ALREADY_ASSIGNED :: "string \<Rightarrow> ExecutionContext \<Rightarrow> bool"
  COUNT_SIMILAR_AGENTS_ASSIGNED :: "string \<Rightarrow> ExecutionContext \<Rightarrow> real \<Rightarrow> nat"
  GET_USER_AGENT_SUCCESS_RATE :: "string \<Rightarrow> string \<Rightarrow> nat \<Rightarrow> real option"
  AGENT_ACTIVE_AT_TIME_OF_DAY :: "string \<Rightarrow> string \<Rightarrow> bool"
  GET_AGENT_LAST_EXECUTION_TIME :: "string \<Rightarrow> real option"
  GET_AGENT_RECENT_ACCURACY :: "string \<Rightarrow> nat \<Rightarrow> real option"
  GET_PATTERN_EXECUTION_SUCCESS_RATE :: "string \<Rightarrow> bool \<Rightarrow> real option"
  EXTRACT_SORTED_SCORES :: "(string \<times> real) list \<Rightarrow> real list"
  COMPUTE_ENTROPY :: "real list \<Rightarrow> exn + real"
  GET_AGENT_SIMILARITY_SCORE :: "string \<Rightarrow> real"

subsection \<open>Metadata extraction (section 7.1)\<close>

fun split_on :: "char \<Rightarrow> string \<Rightarrow> string list" where
  "split_on sep [] = [[]]"
| "split_on sep (c # cs) =
     (if c = sep then [] # split_on sep cs
      else (case split_on sep cs of [] \<Rightarrow> [[c]] | ys # yss \<Rightarrow> (c # ys) # yss))"

definition is_space :: "char \<Rightarrow> bool" where
  "is_space c = (c = CHR '' '' \<or> c = CHR 0x09 \<or> c = CHR 0x0A \<or> c = CHR 0x0D)"

definition trim :: "string \<Rightarrow> string" where
  "trim s = rev (dropWhile is_space (rev (dropWhile is_space s)))"

text \<open>The metadata is a \<open>Record<string, string>\<close>, so the \<open>skills\<close> entry is a string.\<close>

definition EXTRACT_SKILLS :: "(string \<times> string) list \<Rightarrow> string list" where
  "EXTRACT_SKILLS md =
     (case map_of md ''skills'' of
        Some skillsStr \<Rightarrow> map trim (split_on CHR '','' skillsStr)
      | None \<Rightarrow> [])"

definition EXTRACT_PATTERN_TYPE :: "(string \<times> string) list \<Rightarrow> string" where
  "EXTRACT_PATTERN_TYPE md =
     (case map_of md ''type'' of
        Some t \<Rightarrow> t
      | None \<Rightarrow> (case map_of md ''category'' of Some c \<Rightarrow> c | None \<Rightarrow> ''unknown''))"

definition EXTRACT_PRIORITY :: "(string \<times> string) list \<Rightarrow> string" where
  "EXTRACT_PRIORITY md =
     (case map_of md ''priority'' of Some p \<Rightarrow> p | None \<Rightarrow> ''medium'')"

definition INTERSECTION :: "string list \<Rightarrow> string list \<Rightarrow> string list" where
  "INTERSECTION xs ys = filter (\<lambda>x. x \<in> set ys) xs"

text \<open>The eight named scores of one agent; the weight table has the same eight keys.\<close>

record ExpertScores =
  similarity :: real
  metadata :: real
  success_rate :: real
  recency :: real
  team_diversity :: real
  latency_fit :: real
  context_relevance :: real
  confidence_calibration :: real

definition values_of :: "ExpertScores \<Rightarrow> real list" where
  "values_of s = [similarity s, metadata s, success_rate s, recency s, team_diversity s,
                  latency_fit s, context_relevance s, confidence_calibration s]"

text \<open>The weight table of \<open>COMPUTE_EXPERT_SCORE\<close>.\<close>

definition weights :: ExpertScores where
  "weights = \<lparr> similarity = 0.25, metadata = 0.15, success_rate = 0.20, recency = 0.10,
               team_diversity = 0.10, latency_fit = 0.10, context_relevance = 0.07,
               confidence_calibration = 0.03 \<rparr>"

definition weightSum :: real where
  "weightSum = sum_list (values_of weights)"

text \<open>\<open>ASSERT ABS(weightSum - 1.0) < 0.0001\<close>.\<close>

definition weights_assertion :: bool where
  "weights_assertion = (\<bar>weightSum - 1.0\<bar> < 0.0001)"

subsection \<open>Expert 1: semantic similarity\<close>

text \<open>
  The search loop of \<open>EXPERT_SIMILARITY\<close>: the first index \<open>i\<close> (counted from the start
  index) whose candidate has the agent's id, with that candidate's similarity.
\<close>

fun find_agent :: "string \<Rightarrow> (string \<times> real) list \<Rightarrow> nat \<Rightarrow> (nat \<times> real) option" where
  "find_agent agentId [] i = None"
| "find_agent agentId (c # cs) i =
     (if fst c = agentId then Some (i, snd c) else find_agent agentId cs (Suc i))"

definition EXPERT_SIMILARITY :: "string \<Rightarrow> (string \<times> real) list \<Rightarrow> real list \<Rightarrow> exn + real" where
  "EXPERT_SIMILARITY agentId candidates allSimilarities =
     (case find_agent agentId candidates 0 of
        None \<Rightarrow> Inr 0.0
      | Some (agentRank, similarityScore) \<Rightarrow>
          (case MAX_of allSimilarities of
             Inl e \<Rightarrow> Inl e
           | Inr maxSimilarity \<Rightarrow>
               (let normalizedScore =
                      (if maxSimilarity = 0.0 then 0.0 else similarityScore / maxSimilarity);
                    rankDiscount = 1.0 - (real agentRank * 0.02);
                    finalScore = normalizedScore * rankDiscount
                in Inr (CLAMP finalScore 0.0 1.0))))"

text \<open>\<open>EXTRACT_SIMILARITY_SCORES(candidates)\<close>: the similarities, in candidate order.\<close>

definition EXTRACT_SIMILARITY_SCORES :: "(string \<times> real) list \<Rightarrow> real list" where
  "EXTRACT_SIMILARITY_SCORES candidates = map snd candidates"

subsection \<open>Expert 2: metadata matching\<close>

definition EXPERT_METADATA ::
  "Services \<Rightarrow> AgentCapabilityProfile \<Rightarrow> PatternRoutingRequest \<Rightarrow> string list option
     \<Rightarrow> exn + real" where
  "EXPERT_METADATA sv agent pattern requiredSkills =
     (let patternSkills = EXTRACT_SKILLS (pattern_metadata pattern);
          patternSpecializations = EXTRACT_SPECIALIZATIONS sv (pattern_metadata pattern);
          (score, maxScore) = (0.0, 0.0);
          (score, maxScore) =
            (if length patternSkills > 0 then
               (let matchedSkills = INTERSECTION patternSkills (skills agent);
                    skillMatchRatio = real (length matchedSkills) / real (length patternSkills)
                in (score + skillMatchRatio * 0.5, maxScore + 0.5))
             else (score, maxScore));
          (score, maxScore) =
            (if length patternSpecializations > 0 then
               (let matchedSpecs = INTERSECTION patternSpecializations (specializations agent);
                    specMatchRatio =
                      real (length matchedSpecs) / real (length patternSpecializations)
                in (score + specMatchRatio * 0.3, maxScore + 0.3))
             else (score, maxScore));
          (score, maxScore) =
            (case requiredSkills of
               None \<Rightarrow> (score, maxScore)
             | Some rs \<Rightarrow>
                 (if length rs > 0 then
                    (let hasAllRequired = list_all (\<lambda>s. s \<in> set (skills agent)) rs
                     in if hasAllRequired then (score + 0.2, maxScore + 0.2)
                        else
                          (let matchCount = length (filter (\<lambda>s. s \<in> set (skills agent)) rs);
                               partialCredit = (real matchCount / real (length rs)) * 0.15
                           in (score + partialCredit, maxScore + 0.2)))
                  else (score, maxScore)));
          normalizedScore = (if maxScore > 0 then score / maxScore else 0.5)
      in Inr (CLAMP normalizedScore 0.0 1.0))"

subsection \<open>Expert 3: success rate\<close>

definition EXPERT_SUCCESS_RATE :: "AgentCapabilityProfile \<Rightarrow> string \<Rightarrow> exn + real" where
  "EXPERT_SUCCESS_RATE agent patternType =
     (let successRate =
            (case map_of (success_rate_by_type agent) patternType of
               Some r \<Rightarrow> r
             | None \<Rightarrow> success_rate_default agent)
      in Inr (CLAMP successRate 0.0 1.0))"

subsection \<open>Expert 4: recency boost\<close>

text \<open>
  One round of the loop over \<open>agent.recent_wins\<close>; the state is the pair
  (\<open>recentWinsInWindow\<close>, \<open>recentSuccessesInWindow\<close>).
\<close>

definition recency_step :: "string \<Rightarrow> real \<Rightarrow> real \<Rightarrow> RecentWin \<Rightarrow> nat \<times> nat \<Rightarrow> nat \<times> nat" where
  "recency_step patternType currentTime timeWindowSeconds win st =
     (if win_pattern_type win = patternType then
        (let timeSinceWin = currentTime - win_timestamp win
         in if timeSinceWin \<le> timeWindowSeconds then
              (Suc (fst st), (if win_success win then Suc (snd st) else snd st))
            else st)
      else st)"

definition EXPERT_RECENCY ::
  "Services \<Rightarrow> AgentCapabilityProfile \<Rightarrow> string \<Rightarrow> real \<Rightarrow> exn + real" where
  "EXPERT_RECENCY sv agent patternType timeWindowMinutes =
     (let baseScore = GET_SUCCESS_RATE sv (agent_id agent) patternType;
          maxBoost = 0.2
      in if length (recent_wins agent) = 0 then Inr baseScore
         else
           (let currentTime = CURRENT_TIMESTAMP sv;
                timeWindowSeconds = timeWindowMinutes * 60;
                (recentWinsInWindow, recentSuccessesInWindow) =
                  fold (recency_step patternType currentTime timeWindowSeconds)
                       (recent_wins agent) (0, 0);
                boostAmount =
                  (if recentWinsInWindow > 0 then
                     (real recentSuccessesInWindow / real recentWinsInWindow) * maxBoost
                   else 0.0);
                finalScore = baseScore + boostAmount
            in Inr (CLAMP finalScore 0.0 1.0)))"

subsection \<open>Expert 5: team diversity and load\<close>

text \<open>A division by a zero capacity is an arithmetic error of the expert.\<close>

definition EXPERT_TEAM_DIVERSITY ::
  "Services \<Rightarrow> AgentCapabilityProfile \<Rightarrow> ExecutionContext \<Rightarrow> exn + real" where
  "EXPERT_TEAM_DIVERSITY sv agent context' =
     (let baseScore = 1.0;
          penalties = 0.0;
          penalties =
            (if AGENT_ALREADY_ASSIGNED sv (agent_id agent) context' then penalties + 0.2
             else penalties)
      in if team_capacity agent = 0 then Inl ZeroDivisionError
         else
           (let loadPercentage = team_assignments agent / team_capacity agent;
                penalties =
                  (if loadPercentage > 0.8 then penalties + (loadPercentage - 0.8) * 0.5
                   else penalties);
                penalties =
                  (if loadPercentage < 0.3 then penalties - (0.3 - loadPercentage) * 0.1
                   else penalties);
                similarAgentsAssigned =
                  COUNT_SIMILAR_AGENTS_ASSIGNED sv (agent_id agent) context' 0.7;
                penalties =
                  (if similarAgentsAssigned > 2
                   then penalties + (real similarAgentsAssigned - 2) * 0.05
                   else penalties);
                finalScore = baseScore - penalties
            in Inr (CLAMP finalScore 0.0 1.0)))"

subsection \<open>Expert 6: latency fit\<close>

record PriorityLatency =
  acceptable :: real
  target :: real

definition priorityLatencies :: "(string \<times> PriorityLatency) list" where
  "priorityLatencies =
     [(''low'', \<lparr> acceptable = 1000, target = 500 \<rparr>),
      (''medium'', \<lparr> acceptable = 500, target = 200 \<rparr>),
      (''high'', \<lparr> acceptable = 200, target = 100 \<rparr>),
      (''critical'', \<lparr> acceptable = 100, target = 50 \<rparr>)]"

definition EXPERT_LATENCY_FIT ::
  "AgentCapabilityProfile \<Rightarrow> string \<Rightarrow> real option \<Rightarrow> exn + real" where
  "EXPERT_LATENCY_FIT agent patternPriority maxLatency =
     (let agentLatencyP99 = p99 (latency_profile agent);
          agentLatencyMax = max_ms (latency_profile agent)
      in case map_of priorityLatencies patternPriority of
           None \<Rightarrow> Inl (KeyError patternPriority)
         | Some tier \<Rightarrow>
             (let latencyTarget = target tier;
                  latencyAcceptable = acceptable tier
              in if (case maxLatency of None \<Rightarrow> False | Some m \<Rightarrow> agentLatencyMax > m)
                 then Inr 0.0
                 else
                   (let score =
                      (if agentLatencyP99 \<le> latencyTarget then 1.0
                       else if agentLatencyP99 \<le> latencyAcceptable then
                         (let scoreRange = latencyAcceptable - latencyTarget;
                              scoreDistance = agentLatencyP99 - latencyTarget
                          in 1.0 - (scoreDistance / scoreRange) * 0.4)
                       else 0.1)
                    in Inr (CLAMP score 0.0 1.0))))"

subsection \<open>Expert 7: context relevance\<close>

definition EXPERT_CONTEXT_RELEVANCE ::
  "Services \<Rightarrow> AgentCapabilityProfile \<Rightarrow> ExecutionContext \<Rightarrow> PatternRoutingRequest
     \<Rightarrow> exn + real" where
  "EXPERT_CONTEXT_RELEVANCE sv agent context' pattern =
     (let baseScore = 0.5;
          baseScore =
            (if agent_id agent \<in> set (up_preferred_agents (user_preferences context'))
             then baseScore + 0.3 else baseScore)
      in if agent_id agent \<in> set (up_excluded_agents (user_preferences context'))
         then Inr 0.0
         else
           (let userSuccessRate =
                  GET_USER_AGENT_SUCCESS_RATE sv (ctx_user_id context') (agent_id agent) 30;
                baseScore =
                  (case userSuccessRate of
                     Some r \<Rightarrow> baseScore + (r - 0.5) * 0.2
                   | None \<Rightarrow> baseScore);
                timeOfDay = time_of_day context';
                baseScore =
                  (if AGENT_ACTIVE_AT_TIME_OF_DAY sv (agent_id agent) timeOfDay
                   then baseScore + 0.05 else baseScore);
                lastExecutionTime = GET_AGENT_LAST_EXECUTION_TIME sv (agent_id agent);
                baseScore =
                  (case lastExecutionTime of
                     Some t \<Rightarrow>
                       (let timeSinceLastExecution = (CURRENT_TIMESTAMP sv - t) / 3600
                        in if timeSinceLastExecution < 24 then baseScore + 0.1 else baseScore)
                   | None \<Rightarrow> baseScore)
            in Inr (CLAMP baseScore 0.0 1.0)))"

subsection \<open>Expert 8: confidence calibration\<close>

definition EXPERT_CONFIDENCE_CALIBRATION :: "Services \<Rightarrow> AgentCapabilityProfile \<Rightarrow> exn + real" where
  "EXPERT_CONFIDENCE_CALIBRATION sv agent =
     (case GET_AGENT_RECENT_ACCURACY sv (agent_id agent) 7 of
        None \<Rightarrow> Inr 0.5
      | Some recentAccuracy \<Rightarrow>
          (let calibrationFactor =
                 (if recentAccuracy \<ge> 0.95 then 0.5 + (recentAccuracy - 0.95) / 0.05
                  else if recentAccuracy \<ge> 0.90 then 0.5
                  else 0.5 - ((0.90 - recentAccuracy) / 0.10) * 0.05)
           in Inr (CLAMP calibrationFactor 0.0 1.0)))"

subsection \<open>The scoring engine\<close>

text \<open>The eight \<open>TRY\<close> blocks of \<open>COMPUTE_EXPERT_SCORE\<close>: a failed expert scores 0.5.\<close>

definition expert_scores_raw ::
  "Services \<Rightarrow> AgentCapabilityProfile \<Rightarrow> PatternRoutingRequest \<Rightarrow> ExecutionContext
     \<Rightarrow> (string \<times> real) list \<Rightarrow> real list \<Rightarrow> ExpertScores" where
  "expert_scores_raw sv agent pattern context' candidates allCandidateSimilarities =
     (let patternType = EXTRACT_PATTERN_TYPE (pattern_metadata pattern);
          patternPriority = EXTRACT_PRIORITY (pattern_metadata pattern)
      in \<lparr> similarity =
             try_or 0.5 (EXPERT_SIMILARITY (agent_id agent) candidates allCandidateSimilarities),
           metadata =
             try_or 0.5 (EXPERT_METADATA sv agent pattern
               (case constraints pattern of None \<Rightarrow> None | Some c \<Rightarrow> skill_constraints c)),
           success_rate = try_or 0.5 (EXPERT_SUCCESS_RATE agent patternType),
           recency = try_or 0.5 (EXPERT_RECENCY sv agent patternType 60),
           team_diversity = try_or 0.5 (EXPERT_TEAM_DIVERSITY sv agent context'),
           latency_fit =
             try_or 0.5 (EXPERT_LATENCY_FIT agent patternPriority
               (case constraints pattern of None \<Rightarrow> None | Some c \<Rightarrow> max_latency_ms c)),
           context_relevance = try_or 0.5 (EXPERT_CONTEXT_RELEVANCE sv agent context' pattern),
           confidence_calibration = try_or 0.5 (EXPERT_CONFIDENCE_CALIBRATION sv agent) \<rparr>)"

text \<open>The normalisation loop: every score is clamped to [0, 1].\<close>

definition normalize_scores :: "ExpertScores \<Rightarrow> ExpertScores" where
  "normalize_scores s =
     \<lparr> similarity = CLAMP (similarity s) 0.0 1.0,
       metadata = CLAMP (metadata s) 0.0 1.0,
       success_rate = CLAMP (success_rate s) 0.0 1.0,
       recency = CLAMP (recency s) 0.0 1.0,
       team_diversity = CLAMP (team_diversity s) 0.0 1.0,
       latency_fit = CLAMP (latency_fit s) 0.0 1.0,
       context_relevance = CLAMP (context_relevance s) 0.0 1.0,
       confidence_calibration = CLAMP (confidence_calibration s) 0.0 1.0 \<rparr>"

text \<open>The loop over the weight table: \<open>finalScore = finalScore + expertScores[name] * weight\<close>.\<close>

definition weighted_sum :: "ExpertScores \<Rightarrow> real" where
  "weighted_sum s =
     fold (\<lambda>(score, weight) finalScore. finalScore + score * weight)
          (zip (values_of s) (values_of weights)) 0.0"

definition expertScores_of ::
  "Services \<Rightarrow> AgentCapabilityProfile \<Rightarrow> PatternRoutingRequest \<Rightarrow> ExecutionContext
     \<Rightarrow> (string \<times> real) list \<Rightarrow> real list \<Rightarrow> ExpertScores" where
  "expertScores_of sv agent pattern context' candidates allCandidateSimilarities =
     normalize_scores
       (expert_scores_raw sv agent pattern context' candidates allCandidateSimilarities)"

text \<open>
  \<open>COMPUTE_EXPERT_SCORE\<close>: the clamped weighted sum of the normalised scores; the
  failed weight assertion is the function's only own exception (\<open>IS_NUMBER\<close> holds of
  every real). The score vector it stores in the cache, under the agent's id, is
  \<open>expertScores_of\<close>.
\<close>

definition COMPUTE_EXPERT_SCORE ::
  "Services \<Rightarrow> AgentCapabilityProfile \<Rightarrow> PatternRoutingRequest \<Rightarrow> ExecutionContext
     \<Rightarrow> (string \<times> real) list \<Rightarrow> real list \<Rightarrow> exn + real" where
  "COMPUTE_EXPERT_SCORE sv agent pattern context' candidates allCandidateSimilarities =
     (let expertScores =
            expertScores_of sv agent pattern context' candidates allCandidateSimilarities
      in if \<not> weights_assertion then Inl (ValueError ''Weights don't sum to 1.0'')
         else Inr (CLAMP (weighted_sum expertScores) 0.0 1.0))"

subsection \<open>Byzantine consensus validation\<close>

text \<open>
  What \<open>WAIT_FOR_TASK(task, timeout=50)\<close> delivers for one spawned validator: its
  boolean, a \<open>TimeoutError\<close>, or the exception the validator raised.
\<close>

datatype task_result = Completed bool | TimeoutError | Exception exn

text \<open>
  The collection loop. Each observation pairs what the wait delivered with the reading of
  \<open>CURRENT_TIME_MS()\<close> at the total-timeout check that follows it. The loop records the
  result (\<open>None\<close> is \<open>NULL\<close>, an abstention) and returns early, with \<open>None\<close> for the
  result dictionary, when more than 50 ms have passed since \<open>consensusStartTime\<close>.
\<close>

definition validator_result :: "task_result \<Rightarrow> bool option" where
  "validator_result r =
     (case r of Completed b \<Rightarrow> Some b | TimeoutError \<Rightarrow> None | Exception e \<Rightarrow> None)"

fun collect_results ::
  "int \<Rightarrow> (task_result \<times> int) list \<Rightarrow> bool option list \<Rightarrow> bool option list option" where
  "collect_results consensusStartTime [] validatorResults = Some validatorResults"
| "collect_results consensusStartTime ((r, now) # tasks) validatorResults =
     (let validatorResults = validatorResults @ [validator_result r]
      in if (now - consensusStartTime) > 50 then None
         else collect_results consensusStartTime tasks validatorResults)"

text \<open>
  \<open>VALIDATE_BYZANTINE\<close>, from the collection loop to its return. The validator tasks enter
  through the observations the loop makes of them (what each wait delivered, and the clock
  at the check after it), together with the clock reading \<open>consensusStartTime\<close> taken
  before the tasks were spawned.
\<close>

definition COUNT_TRUE :: "bool option list \<Rightarrow> nat" where
  "COUNT_TRUE rs = length (filter (\<lambda>r. r = Some True) rs)"

definition COUNT_NULL :: "bool option list \<Rightarrow> nat" where
  "COUNT_NULL rs = length (filter (\<lambda>r. r = None) rs)"

definition VALIDATE_BYZANTINE ::
  "nat \<Rightarrow> nat \<Rightarrow> int \<Rightarrow> (task_result \<times> int) list \<Rightarrow> string" where
  "VALIDATE_BYZANTINE validators requiredAgreement consensusStartTime observations =
     (case collect_results consensusStartTime observations [] of
        None \<Rightarrow> ''TIMEOUT''
      | Some validatorResults \<Rightarrow>
          (let agreements = COUNT_TRUE validatorResults;
               abstentions = COUNT_NULL validatorResults
           in if agreements \<ge> requiredAgreement then ''APPROVE''
              else if agreements < requiredAgreement
                      \<and> int abstentions < int validators - int requiredAgreement
              then ''ESCALATE''
              else ''TIMEOUT''))"

text \<open>The five validators (section 4.2). \<open>alternatives[0]\<close> of an empty list raises.\<close>

definition VALIDATE_SEMANTIC_SIMILARITY ::
  "Services \<Rightarrow> AgentCapabilityProfile \<Rightarrow> AgentCapabilityProfile list \<Rightarrow> exn + bool" where
  "VALIDATE_SEMANTIC_SIMILARITY sv primaryAgent alternatives =
     (case alternatives of
        [] \<Rightarrow> Inl IndexError
      | a # _ \<Rightarrow>
          (let primaryScore = GET_AGENT_SIMILARITY_SCORE sv (agent_id primaryAgent);
               secondaryScore = GET_AGENT_SIMILARITY_SCORE sv (agent_id a)
           in if (primaryScore - secondaryScore) > 0.1 then Inr True
              else if primaryScore > 0.5 then Inr True
              else Inr False))"

definition VALIDATE_SUCCESS_RATE ::
  "Services \<Rightarrow> AgentCapabilityProfile \<Rightarrow> PatternRoutingRequest \<Rightarrow> exn + bool" where
  "VALIDATE_SUCCESS_RATE sv primaryAgent pattern =
     (let patternType = EXTRACT_PATTERN_TYPE (pattern_metadata pattern);
          successRate = GET_SUCCESS_RATE sv (agent_id primaryAgent) patternType
      in Inr (successRate > 0.70))"

definition VALIDATE_CAPABILITY_MATCH ::
  "AgentCapabilityProfile \<Rightarrow> PatternRoutingRequest \<Rightarrow> exn + bool" where
  "VALIDATE_CAPABILITY_MATCH primaryAgent pattern =
     (let requiredSkills = EXTRACT_SKILLS (pattern_metadata pattern)
      in Inr (list_all (\<lambda>skill. skill \<in> set (skills primaryAgent)) requiredSkills))"

definition VALIDATE_CONTEXT_RELEVANCE ::
  "AgentCapabilityProfile \<Rightarrow> ExecutionContext \<Rightarrow> PatternRoutingRequest \<Rightarrow> exn + bool" where
  "VALIDATE_CONTEXT_RELEVANCE primaryAgent context' pattern =
     (if agent_id primaryAgent \<in> set (up_excluded_agents (user_preferences context'))
      then Inr False
      else if is_available primaryAgent = False then Inr False
      else Inr True)"

definition VALIDATE_TEAM_DIVERSITY ::
  "AgentCapabilityProfile \<Rightarrow> ExecutionContext \<Rightarrow> exn + bool" where
  "VALIDATE_TEAM_DIVERSITY primaryAgent context' =
     (if team_capacity primaryAgent = 0 then Inl ZeroDivisionError
      else
        (let loadPercentage = team_assignments primaryAgent / team_capacity primaryAgent
         in if loadPercentage > 0.8 then Inr False else Inr True))"

text \<open>The five spawned tasks, in spawn order, as the results they produce when they finish.\<close>

definition validatorTasks ::
  "Services \<Rightarrow> AgentCapabilityProfile \<Rightarrow> AgentCapabilityProfile list \<Rightarrow> PatternRoutingRequest
     \<Rightarrow> ExecutionContext \<Rightarrow> (exn + bool) list" where
  "validatorTasks sv primaryAgent alternatives pattern context' =
     [VALIDATE_SEMANTIC_SIMILARITY sv primaryAgent alternatives,
      VALIDATE_SUCCESS_RATE sv primaryAgent pattern,
      VALIDATE_CAPABILITY_MATCH primaryAgent pattern,
      VALIDATE_CONTEXT_RELEVANCE primaryAgent context' pattern,
      VALIDATE_TEAM_DIVERSITY primaryAgent context']"

text \<open>
  The wait on one task: the scheduler decides whether the task finished within the 50 ms of
  the wait (\<open>finished\<close>); a finished task delivers its boolean or its exception.
\<close>

definition WAIT_FOR_TASK :: "exn + bool \<Rightarrow> bool \<Rightarrow> task_result" where
  "WAIT_FOR_TASK task finished =
     (if \<not> finished then TimeoutError
      else (case task of Inl e \<Rightarrow> Exception e | Inr b \<Rightarrow> Completed b))"

subsection \<open>Confidence calibration\<close>

text \<open>Step 4 of \<open>CALIBRATE_CONFIDENCE\<close>: the factor from the agent's 7-day accuracy.\<close>

definition calibrationFactor_of :: "real option \<Rightarrow> real" where
  "calibrationFactor_of accuracy =
     (let agentRecentAccuracy = (case accuracy of None \<Rightarrow> 0.85 | Some a \<Rightarrow> a);
          calibrationFactor = 1.0 + ((agentRecentAccuracy - 0.925) / 7.5)
      in CLAMP calibrationFactor 0.9 1.1)"

text \<open>Step 5: the penalty from the pattern's recent execution success rate.\<close>

definition patternUncertaintyPenalty_of :: "real option \<Rightarrow> real" where
  "patternUncertaintyPenalty_of rate =
     (let patternSuccessRate = (case rate of None \<Rightarrow> 0.85 | Some r \<Rightarrow> r)
      in if patternSuccessRate < 0.8 then (1.0 - patternSuccessRate) * 0.15 else 0.0)"

text \<open>Step 2: the uncertainty penalty from the entropy of the agents' scores.\<close>

definition uncertaintyPenalty_of :: "real \<Rightarrow> nat \<Rightarrow> real" where
  "uncertaintyPenalty_of entropy numAgents =
     (let normalizedEntropy = (if numAgents > 1 then entropy / ln (real numAgents) else 0.0)
      in normalizedEntropy / 2.0)"

text \<open>Step 3: the consensus bonus.\<close>

definition consensusBonus_of :: "bool \<Rightarrow> nat \<Rightarrow> real" where
  "consensusBonus_of consensusRequired consensusValidatorsAgreed =
     (if consensusRequired then (real consensusValidatorsAgreed / 5.0) * 0.2 else 0.0)"

definition CALIBRATE_CONFIDENCE ::
  "Services \<Rightarrow> real \<Rightarrow> real \<Rightarrow> nat \<Rightarrow> bool \<Rightarrow> PatternRoutingRequest \<Rightarrow> ExecutionContext
     \<Rightarrow> (string \<times> real) list \<Rightarrow> exn + real" where
  "CALIBRATE_CONFIDENCE sv primaryScore secondaryScore consensusValidatorsAgreed
       consensusRequired pattern context' agentScores =
     (let scoreGap = primaryScore - secondaryScore;
          baseConfidence = scoreGap;
          allScores = EXTRACT_SORTED_SCORES sv agentScores
      in case COMPUTE_ENTROPY sv allScores of
           Inl e \<Rightarrow> Inl e
         | Inr entropy \<Rightarrow>
             (let numAgents = length agentScores;
                  uncertaintyPenalty = uncertaintyPenalty_of entropy numAgents;
                  consensusBonus = consensusBonus_of consensusRequired consensusValidatorsAgreed;
                  calibrationFactor =
                    calibrationFactor_of
                      (GET_AGENT_RECENT_ACCURACY sv (current_agent_id context') 7);
                  patternUncertaintyPenalty =
                    patternUncertaintyPenalty_of
                      (GET_PATTERN_EXECUTION_SUCCESS_RATE sv (pattern_id pattern) True);
                  finalConfidence =
                    (baseConfidence * 0.6) + ((1.0 - uncertaintyPenalty) * 0.2)
                      + consensusBonus + (- patternUncertaintyPenalty);
                  finalConfidence = finalConfidence * calibrationFactor;
                  finalConfidence = CLAMP finalConfidence 0.0 1.0
              in Inr finalConfidence))"

subsection \<open>Ranking\<close>

text \<open>
  The score dictionary \<open>agentScores\<close> is an association list; \<open>scores[id]\<close> of an id without
  an entry is a key error.
\<close>

fun make_pairs ::
  "AgentCapabilityProfile list \<Rightarrow> (string \<times> real) list
     \<Rightarrow> exn + (AgentCapabilityProfile \<times> real) list" where
  "make_pairs [] scores = Inr []"
| "make_pairs (agent # agents) scores =
     (case map_of scores (agent_id agent) of
        None \<Rightarrow> Inl (KeyError (agent_id agent))
      | Some sc \<Rightarrow>
          (case make_pairs agents scores of
             Inl e \<Rightarrow> Inl e
           | Inr pairs \<Rightarrow> Inr ((agent, sc) # pairs)))"

text \<open>
  \<open>SORT pairs BY score DESC\<close> names the key and the direction of the sort and nothing
  else: no algorithm, and no order among pairs of equal score. The sort primitive is
  therefore a parameter, and it is given exactly what the pseudocode says it sorts by: from
  the scores in input order and the direction (\<open>True\<close> is \<open>DESC\<close>) it returns the positions
  of its input in output order. \<open>arrange\<close> lays the pairs out in that order; a position
  outside the list is an index error.
\<close>

definition arrange :: "'a list \<Rightarrow> nat list \<Rightarrow> exn + 'a list" where
  "arrange xs order =
     (if list_all (\<lambda>i. i < length xs) order then Inr (map (\<lambda>i. xs ! i) order)
      else Inl IndexError)"

definition SORT_BY_SCORE ::
  "(real list \<Rightarrow> bool \<Rightarrow> nat list) \<Rightarrow> AgentCapabilityProfile list \<Rightarrow> (string \<times> real) list
     \<Rightarrow> bool \<Rightarrow> exn + AgentCapabilityProfile list" where
  "SORT_BY_SCORE SORT_BY agents scores descending =
     (case make_pairs agents scores of
        Inl e \<Rightarrow> Inl e
      | Inr pairs \<Rightarrow>
          (case arrange pairs (SORT_BY (map snd pairs) descending) of
             Inl e \<Rightarrow> Inl e
           | Inr sorted_pairs \<Rightarrow> Inr (map fst sorted_pairs)))"

text \<open>The score the dictionary holds for an agent (0 for an agent without an entry).\<close>

definition score_in :: "(string \<times> real) list \<Rightarrow> AgentCapabilityProfile \<Rightarrow> real" where
  "score_in scores agent =
     (case map_of scores (agent_id agent) of Some v \<Rightarrow> v | None \<Rightarrow> 0)"

text \<open>
  What makes a list of positions a descending sort of the keys: it holds every position of
  the input once, and along it the keys do not increase.
\<close>

definition orders_descending :: "real list \<Rightarrow> nat list \<Rightarrow> bool" where
  "orders_descending keys order =
     (sort order = [0..<length keys] \<and> sorted_wrt (\<lambda>i j. keys ! i \<ge> keys ! j) order)"

subsection \<open>Decisions\<close>

record PrimaryAgent =
  pa_agent_id :: string
  pa_name :: "string option"
  pa_score :: real

record Alternative =
  alt_agent_id :: string
  alt_score :: real
  alt_rank :: nat

record ConsensusRecord =
  required :: bool
  validators :: nat
  validators_agreed :: nat
  consensus_result :: string
  validation_latency_ms :: int

record ContextSnapshot =
  snap_user_id :: string
  snap_session_id :: string
  snap_timestamp :: int
  snap_time_of_day :: string

text \<open>
  A decision object. The builders of the pseudocode fill different subsets of the fields;
  a field a builder leaves out is \<open>None\<close>. Timestamps are the clock reading they format.
\<close>

record RoutingDecision =
  decision_id :: string
  dec_request_id :: "string option"
  timestamp :: "int option"
  primary_agent :: PrimaryAgent
  alternatives :: "Alternative list"
  confidence_score :: real
  confidence_rationale :: "string option"
  confidence_calibration_factor :: "real option"
  scoring_breakdown :: "ExpertScores option"
  consensus :: "ConsensusRecord option"
  reasoning :: string
  fallback_applied :: "string option"
  dec_user_id :: "string option"
  execution_context_snapshot :: "ContextSnapshot option"

record ErrorDecision =
  err_code :: string
  err_message :: string
  err_request_id :: string
  err_timestamp :: int

text \<open>
  What \<open>SemanticRoute\<close> returns: the pair (decision, latency) of its own return
  statements, or the bare decision (possibly the error variant) of the routine it
  delegates to.
\<close>

datatype route_output =
    DecisionWithLatency RoutingDecision int
  | DecisionOnly RoutingDecision
  | ErrorOnly ErrorDecision

datatype agent_query = availableOnly bool | status string

text \<open>
  The collaborators of the fallback manager and of the orchestrator. A call that may raise
  returns a sum; \<open>ROUND_ROBIN_SELECT\<close> takes the persistent rotation pointer and returns
  the chosen agent with the advanced pointer. \<open>SORT_ORDER\<close> is the sort primitive behind
  \<open>SORT ... BY score\<close>. \<open>GET_VALIDATOR_AGREEMENT_COUNT()\<close> reads what the consensus
  validation left behind: it is a function of the results the collection loop recorded.
\<close>

record Collaborators =
  GET_CACHED_ALTERNATIVES :: "PatternRoutingRequest \<Rightarrow> exn + AgentCapabilityProfile list option"
  IS_AVAILABLE :: "AgentCapabilityProfile \<Rightarrow> exn + bool"
  FIND_AGENTS_BY_SKILLS :: "string list \<Rightarrow> agent_query \<Rightarrow> exn + AgentCapabilityProfile list"
  SORT_BY_SUCCESS_RATE :: "AgentCapabilityProfile list \<Rightarrow> exn + AgentCapabilityProfile list"
  GET_BEST_AGENT_FOR_PATTERN_TYPE :: "string \<Rightarrow> bool \<Rightarrow> exn + AgentCapabilityProfile option"
  GET_AVAILABLE_AGENTS :: "string \<Rightarrow> exn + AgentCapabilityProfile list"
  ROUND_ROBIN_SELECT ::
    "nat \<Rightarrow> AgentCapabilityProfile list \<Rightarrow> exn + (AgentCapabilityProfile \<times> nat)"
  GET_DEFAULT_FALLBACK_AGENT :: "exn + AgentCapabilityProfile option"
  VALIDATE_PATTERN_REQUEST :: "PatternRoutingRequest \<Rightarrow> string option"
  VALIDATE_EXECUTION_CONTEXT :: "ExecutionContext \<Rightarrow> string option"
  COMPUTE_CACHE_KEY :: "PatternRoutingRequest \<Rightarrow> ExecutionContext \<Rightarrow> string"
  EMBED_PATTERN :: "string \<Rightarrow> (string \<times> string) list \<Rightarrow> exn + real list"
  HNSW_SEARCH :: "real list \<Rightarrow> nat \<Rightarrow> nat \<Rightarrow> exn + (string \<times> real) list"
  METADATA_FALLBACK_SEARCH :: "PatternRoutingRequest \<Rightarrow> nat \<Rightarrow> (string \<times> real) list"
  BATCH_GET_PROFILES :: "string list \<Rightarrow> bool \<Rightarrow> exn + AgentCapabilityProfile list"
  FILTER_AGENTS ::
    "AgentCapabilityProfile list \<Rightarrow> RoutingConstraints option \<Rightarrow> string list option
       \<Rightarrow> string list option \<Rightarrow> AgentCapabilityProfile list"
  TAKE :: "AgentCapabilityProfile list \<Rightarrow> nat \<Rightarrow> nat \<Rightarrow> AgentCapabilityProfile list"
  SORT_ORDER :: "real list \<Rightarrow> bool \<Rightarrow> nat list"
  IS_CRITICAL_PATTERN :: "PatternRoutingRequest \<Rightarrow> bool"
  GET_VALIDATOR_AGREEMENT_COUNT :: "task_result list \<Rightarrow> nat"
  EXTRACT_SCORES :: "(string \<times> real) list \<Rightarrow> real list"
  BUILD_CONFIDENCE_RATIONALE :: "real \<Rightarrow> real \<Rightarrow> string \<Rightarrow> string"
  GET_CALIBRATION_FACTOR :: real
  BUILD_SCORING_BREAKDOWN ::
    "AgentCapabilityProfile \<Rightarrow> (string \<times> real) list \<Rightarrow> ExpertScores \<Rightarrow> ExpertScores"
  LOG_ROUTING_DECISION :: "RoutingDecision \<Rightarrow> exn + unit"
  CURRENT_REQUEST_ID :: string
  ROUND :: "real \<Rightarrow> nat \<Rightarrow> string"
  NUMBER_TO_STRING :: "nat \<Rightarrow> string"

text \<open>
  The state the pipeline reads and writes: the UUID generator and the system clock (the
  \<open>n\<close>-th value each hands out, and how many were handed out so far), the scheduler's
  verdict on whether the \<open>i\<close>-th validator task finishes within its wait, the rotation
  pointer of the round-robin strategy, and the decision cache, which keeps with every
  decision the time (in milliseconds) at which the entry expires.
\<close>

record World =
  UUID_V4 :: "nat \<Rightarrow> string"
  uuids_drawn :: nat
  SYSTEM_CLOCK_MILLISECONDS :: "nat \<Rightarrow> int"
  clock_reads :: nat
  task_finished :: "nat \<Rightarrow> bool"
  rotation_pointer :: nat
  cache :: "(string \<times> RoutingDecision \<times> int) list"

definition GENERATE_UUID :: "World \<Rightarrow> string \<times> World" where
  "GENERATE_UUID w = (UUID_V4 w (uuids_drawn w), w\<lparr> uuids_drawn := Suc (uuids_drawn w) \<rparr>)"

definition CURRENT_TIME_MS :: "World \<Rightarrow> int \<times> World" where
  "CURRENT_TIME_MS w =
     (SYSTEM_CLOCK_MILLISECONDS w (clock_reads w), w\<lparr> clock_reads := Suc (clock_reads w) \<rparr>)"

definition CURRENT_ISO8601_TIMESTAMP :: "World \<Rightarrow> int \<times> World" where
  "CURRENT_ISO8601_TIMESTAMP w = CURRENT_TIME_MS w"

text \<open>
  The cache tells the time from the same clock, without using up one of the readings of
  the pipeline: \<open>CLOCK_NOW\<close> is the reading the clock shows. \<open>CACHE_SET(key, value, ttl)\<close>
  stores the value to expire \<open>ttl\<close> seconds later; \<open>CACHE_GET\<close> returns the newest entry
  of the key unless it has expired.
\<close>

definition CLOCK_NOW :: "World \<Rightarrow> int" where
  "CLOCK_NOW w = SYSTEM_CLOCK_MILLISECONDS w (clock_reads w)"

definition CACHE_GET :: "World \<Rightarrow> string \<Rightarrow> RoutingDecision option" where
  "CACHE_GET w key =
     (case map_of (cache w) key of
        None \<Rightarrow> None
      | Some (v, expires) \<Rightarrow> (if CLOCK_NOW w < expires then Some v else None))"

definition CACHE_SET :: "string \<Rightarrow> RoutingDecision \<Rightarrow> nat \<Rightarrow> World \<Rightarrow> World" where
  "CACHE_SET key v ttl w = w\<lparr> cache := (key, v, CLOCK_NOW w + 1000 * int ttl) # cache w \<rparr>"

fun dict_set :: "(string \<times> real) list \<Rightarrow> string \<Rightarrow> real \<Rightarrow> (string \<times> real) list" where
  "dict_set [] k v = [(k, v)]"
| "dict_set ((k', v') # m) k v =
     (if k' = k then (k, v) # m else (k', v') # dict_set m k v)"

definition dict_get :: "(string \<times> real) list \<Rightarrow> string \<Rightarrow> exn + real" where
  "dict_get m k = (case map_of m k of None \<Rightarrow> Inl (KeyError k) | Some v \<Rightarrow> Inr v)"

subsection \<open>Data transformation (section 8) and error decisions (section 9)\<close>

definition BUILD_FALLBACK_DECISION ::
  "Services \<Rightarrow> AgentCapabilityProfile \<Rightarrow> string \<Rightarrow> real \<Rightarrow> string \<Rightarrow> World
     \<Rightarrow> RoutingDecision \<times> World" where
  "BUILD_FALLBACK_DECISION sv agent strategy confidenceScore fallbackReason w =
     (let (uuid, w) = GENERATE_UUID w;
          (now, w) = CURRENT_ISO8601_TIMESTAMP w
      in (\<lparr> decision_id = uuid,
             dec_request_id = None,
             timestamp = Some now,
             primary_agent =
               \<lparr> pa_agent_id = agent_id agent,
                 pa_name = Some (name agent),
                 pa_score = GET_SUCCESS_RATE sv (agent_id agent) ''unknown'' \<rparr>,
             alternatives = [],
             confidence_score = confidenceScore,
             confidence_rationale = None,
             confidence_calibration_factor = None,
             scoring_breakdown = None,
             consensus = None,
             reasoning = fallbackReason,
             fallback_applied = Some strategy,
             dec_user_id = None,
             execution_context_snapshot = None \<rparr>, w))"

fun build_alternatives_from ::
  "nat \<Rightarrow> AgentCapabilityProfile list \<Rightarrow> (string \<times> real) list \<Rightarrow> exn + Alternative list" where
  "build_alternatives_from i [] scores = Inr []"
| "build_alternatives_from i (agent # agents) scores =
     (case dict_get scores (agent_id agent) of
        Inl e \<Rightarrow> Inl e
      | Inr sc \<Rightarrow>
          (case build_alternatives_from (Suc i) agents scores of
             Inl e \<Rightarrow> Inl e
           | Inr rest \<Rightarrow>
               Inr (\<lparr> alt_agent_id = agent_id agent, alt_score = sc, alt_rank = i \<rparr> # rest)))"

definition BUILD_ALTERNATIVES ::
  "AgentCapabilityProfile list \<Rightarrow> (string \<times> real) list \<Rightarrow> exn + Alternative list" where
  "BUILD_ALTERNATIVES agents scores =
     build_alternatives_from 0 (take (min 3 (length agents)) agents) scores"

definition SNAPSHOT_CONTEXT :: "ExecutionContext \<Rightarrow> World \<Rightarrow> ContextSnapshot \<times> World" where
  "SNAPSHOT_CONTEXT context' w =
     (let (now, w) = CURRENT_ISO8601_TIMESTAMP w
      in (\<lparr> snap_user_id = ctx_user_id context',
             snap_session_id = session_id context',
             snap_timestamp = now,
             snap_time_of_day = time_of_day context' \<rparr>, w))"

definition BUILD_ERROR_DECISION :: "Collaborators \<Rightarrow> string \<Rightarrow> World \<Rightarrow> ErrorDecision \<times> World" where
  "BUILD_ERROR_DECISION co errorMessage w =
     (let (now, w) = CURRENT_ISO8601_TIMESTAMP w
      in (\<lparr> err_code = ''ROUTING_FAILED'',
             err_message = errorMessage,
             err_request_id = CURRENT_REQUEST_ID co,
             err_timestamp = now \<rparr>, w))"

fun JOIN :: "string list \<Rightarrow> string \<Rightarrow> string" where
  "JOIN [] sep = []"
| "JOIN [x] sep = x"
| "JOIN (x # y # xs) sep = x @ sep @ JOIN (y # xs) sep"

definition BUILD_REASONING_STRING ::
  "Collaborators \<Rightarrow> AgentCapabilityProfile \<Rightarrow> real \<Rightarrow> real \<Rightarrow> real \<Rightarrow> PatternRoutingRequest
     \<Rightarrow> (string \<times> real) list \<Rightarrow> string" where
  "BUILD_REASONING_STRING co primaryAgent primaryScore secondaryScore confidenceScore pattern
       agentScores =
     (let lines =
            [''Selected '' @ name primaryAgent @ '' ('' @ agent_id primaryAgent @ '')''
               @ '' with score '' @ ROUND co primaryScore 2];
          gap = primaryScore - secondaryScore;
          lines =
            (if gap > 0.3 then lines @ [''Clear winner with significant score gap'']
             else if gap > 0.1 then lines @ [''Moderate lead over alternatives'']
             else lines @ [''Narrow margin from runner-up'']);
          lines =
            (case map_of (success_rate_by_type primaryAgent)
                    (EXTRACT_PATTERN_TYPE (pattern_metadata pattern)) of
               Some r \<Rightarrow>
                 (if r > 0.9
                  then lines @ [''Excellent historical success rate on this pattern type'']
                  else lines)
             | None \<Rightarrow> lines);
          requiredSkills = EXTRACT_SKILLS (pattern_metadata pattern);
          lines =
            (if length requiredSkills > 0 then
               (let matchedSkills = INTERSECTION requiredSkills (skills primaryAgent)
                in lines @
                     [''Possesses '' @ NUMBER_TO_STRING co (length matchedSkills) @ ''/''
                        @ NUMBER_TO_STRING co (length requiredSkills) @ '' required skills''])
             else lines);
          lines =
            (if confidenceScore > 0.9 then lines @ [''High confidence in this selection'']
             else if confidenceScore < 0.6
             then lines @ [''Low confidence - consider alternatives'']
             else lines)
      in JOIN lines ''. '')"

subsection \<open>The fallback manager\<close>

definition fallbackChain :: "(string \<times> nat) list" where
  "fallbackChain =
     [(''alternatives'', 1), (''skill_match'', 2), (''success_history'', 3),
      (''round_robin'', 4), (''default_agent'', 5), (''error'', 6)]"

text \<open>The loop over the cached alternatives: the first one that is available.\<close>

fun first_available ::
  "Collaborators \<Rightarrow> AgentCapabilityProfile list \<Rightarrow> exn + AgentCapabilityProfile option" where
  "first_available co [] = Inr None"
| "first_available co (alternativeAgent # rest) =
     (case IS_AVAILABLE co alternativeAgent of
        Inl e \<Rightarrow> Inl e
      | Inr ok \<Rightarrow> (if ok then Inr (Some alternativeAgent) else first_available co rest))"

text \<open>
  The five agent-selecting strategies. Each is the body of its \<open>TRY\<close> block: \<open>Some\<close> is the
  decision the block returns, \<open>None\<close> is falling out of the block (its guard failed, or an
  exception was caught and logged), after which the loop goes on to the next strategy.
\<close>

definition strategy_alternatives ::
  "Services \<Rightarrow> Collaborators \<Rightarrow> PatternRoutingRequest \<Rightarrow> World
     \<Rightarrow> (RoutingDecision \<times> World) option" where
  "strategy_alternatives sv co pattern w =
     (case GET_CACHED_ALTERNATIVES co pattern of
        Inl e \<Rightarrow> None
      | Inr None \<Rightarrow> None
      | Inr (Some cached) \<Rightarrow>
          (if length cached > 0 then
             (case first_available co cached of
                Inl e \<Rightarrow> None
              | Inr None \<Rightarrow> None
              | Inr (Some alternativeAgent) \<Rightarrow>
                  Some (BUILD_FALLBACK_DECISION sv alternativeAgent ''alternatives'' 0.7
                          ''Primary unavailable, using alternative'' w))
           else None))"

definition strategy_skill_match ::
  "Services \<Rightarrow> Collaborators \<Rightarrow> PatternRoutingRequest \<Rightarrow> World
     \<Rightarrow> (RoutingDecision \<times> World) option" where
  "strategy_skill_match sv co pattern w =
     (let requiredSkills = EXTRACT_SKILLS (pattern_metadata pattern)
      in if length requiredSkills > 0 then
           (case FIND_AGENTS_BY_SKILLS co requiredSkills (availableOnly True) of
              Inl e \<Rightarrow> None
            | Inr candidateAgents \<Rightarrow>
                (if length candidateAgents > 0 then
                   (case SORT_BY_SUCCESS_RATE co candidateAgents of
                      Inl e \<Rightarrow> None
                    | Inr [] \<Rightarrow> None
                    | Inr (selectedAgent # _) \<Rightarrow>
                        Some (BUILD_FALLBACK_DECISION sv selectedAgent ''skill_match'' 0.6
                                ''Matched agent by required skills'' w))
                 else None))
         else None)"

definition strategy_success_history ::
  "Services \<Rightarrow> Collaborators \<Rightarrow> PatternRoutingRequest \<Rightarrow> World
     \<Rightarrow> (RoutingDecision \<times> World) option" where
  "strategy_success_history sv co pattern w =
     (let patternType = EXTRACT_PATTERN_TYPE (pattern_metadata pattern)
      in case GET_BEST_AGENT_FOR_PATTERN_TYPE co patternType True of
           Inl e \<Rightarrow> None
         | Inr None \<Rightarrow> None
         | Inr (Some bestAgent) \<Rightarrow>
             Some (BUILD_FALLBACK_DECISION sv bestAgent ''success_history'' 0.55
                     ''Selected by best historical success rate'' w))"

definition strategy_round_robin ::
  "Services \<Rightarrow> Collaborators \<Rightarrow> PatternRoutingRequest \<Rightarrow> World
     \<Rightarrow> (RoutingDecision \<times> World) option" where
  "strategy_round_robin sv co pattern w =
     (case GET_AVAILABLE_AGENTS co ''active'' of
        Inl e \<Rightarrow> None
      | Inr availableAgents \<Rightarrow>
          (if length availableAgents > 0 then
             (case ROUND_ROBIN_SELECT co (rotation_pointer w) availableAgents of
                Inl e \<Rightarrow> None
              | Inr (selectedAgent, pointer) \<Rightarrow>
                  Some (BUILD_FALLBACK_DECISION sv selectedAgent ''round_robin'' 0.4
                          ''Selected by round-robin load balancing''
                          (w\<lparr> rotation_pointer := pointer \<rparr>)))
           else None))"

definition strategy_default_agent ::
  "Services \<Rightarrow> Collaborators \<Rightarrow> PatternRoutingRequest \<Rightarrow> World
     \<Rightarrow> (RoutingDecision \<times> World) option" where
  "strategy_default_agent sv co pattern w =
     (case GET_DEFAULT_FALLBACK_AGENT co of
        Inl e \<Rightarrow> None
      | Inr None \<Rightarrow> None
      | Inr (Some defaultAgent) \<Rightarrow>
          (case IS_AVAILABLE co defaultAgent of
             Inl e \<Rightarrow> None
           | Inr ok \<Rightarrow>
               (if ok then
                  Some (BUILD_FALLBACK_DECISION sv defaultAgent ''default_agent'' 0.3
                          ''Using designated default fallback agent'' w)
                else None)))"

text \<open>
  One round of the loop over the chain: the \<open>IF strategy == ...\<close> cascade. \<open>Some\<close> leaves
  the function (with a decision, or with the error the last strategy throws); \<open>None\<close>
  goes on to the next item.
\<close>

definition try_strategy ::
  "Services \<Rightarrow> Collaborators \<Rightarrow> string \<Rightarrow> PatternRoutingRequest \<Rightarrow> string \<Rightarrow> World
     \<Rightarrow> ((routing_error + RoutingDecision) \<times> World) option" where
  "try_strategy sv co strategy' pattern failureReason w =
     (if strategy' = ''alternatives'' then
        map_option (\<lambda>(d, w'). (Inr d, w')) (strategy_alternatives sv co pattern w)
      else if strategy' = ''skill_match'' then
        map_option (\<lambda>(d, w'). (Inr d, w')) (strategy_skill_match sv co pattern w)
      else if strategy' = ''success_history'' then
        map_option (\<lambda>(d, w'). (Inr d, w')) (strategy_success_history sv co pattern w)
      else if strategy' = ''round_robin'' then
        map_option (\<lambda>(d, w'). (Inr d, w')) (strategy_round_robin sv co pattern w)
      else if strategy' = ''default_agent'' then
        map_option (\<lambda>(d, w'). (Inr d, w')) (strategy_default_agent sv co pattern w)
      else if strategy' = ''error'' then
        Some (Inl (NoAgentsAvailableError
                (''Cannot route pattern after exhausting fallback strategies. ''
                   @ ''Reason: '' @ failureReason)), w)
      else None)"

fun fallback_loop ::
  "Services \<Rightarrow> Collaborators \<Rightarrow> (string \<times> nat) list \<Rightarrow> PatternRoutingRequest \<Rightarrow> string \<Rightarrow> World
     \<Rightarrow> (routing_error + RoutingDecision) \<times> World" where
  "fallback_loop sv co [] pattern failureReason w =
     (Inl (RoutingError ''Fallback strategy execution completed without result''), w)"
| "fallback_loop sv co (fallbackItem # rest) pattern failureReason w =
     (case try_strategy sv co (fst fallbackItem) pattern failureReason w of
        Some r \<Rightarrow> r
      | None \<Rightarrow> fallback_loop sv co rest pattern failureReason w)"

definition APPLY_FALLBACK_STRATEGY ::
  "Services \<Rightarrow> Collaborators \<Rightarrow> PatternRoutingRequest \<Rightarrow> ExecutionContext \<Rightarrow> string \<Rightarrow> int
     \<Rightarrow> World \<Rightarrow> (routing_error + RoutingDecision) \<times> World" where
  "APPLY_FALLBACK_STRATEGY sv co pattern context' failureReason latencySoFar w =
     fallback_loop sv co fallbackChain pattern failureReason w"

text \<open>
  Whether the strategy at position \<open>k\<close> of the chain yields a decision in this state.
\<close>

definition can_yield ::
  "Services \<Rightarrow> Collaborators \<Rightarrow> PatternRoutingRequest \<Rightarrow> string \<Rightarrow> World \<Rightarrow> nat \<Rightarrow> bool" where
  "can_yield sv co pattern failureReason w k =
     (k < length fallbackChain \<and>
      (case try_strategy sv co (fst (fallbackChain ! k)) pattern failureReason w of
         Some (Inr d, w') \<Rightarrow> True
       | _ \<Rightarrow> False))"

text \<open>
  The confidences the specification lists for the five agent-selecting strategies, in chain
  order, for comparison with the constants at the call sites above.
\<close>

definition spec_fallback_confidences :: "real list" where
  "spec_fallback_confidences = [0.7, 0.6, 0.55, 0.4, 0.3]"

text \<open>What a decision built by the fallback manager looks like, for a tag and a confidence.\<close>

definition fallback_shaped :: "Services \<Rightarrow> string \<Rightarrow> real \<Rightarrow> RoutingDecision \<Rightarrow> bool" where
  "fallback_shaped sv tag c d =
     (fallback_applied d = Some tag \<and> confidence_score d = c \<and> alternatives d = []
      \<and> pa_score (primary_agent d) = GET_SUCCESS_RATE sv (pa_agent_id (primary_agent d)) ''unknown'')"

subsection \<open>Routing by metadata (section 1.2)\<close>

definition ROUTE_BY_METADATA ::
  "Services \<Rightarrow> Collaborators \<Rightarrow> PatternRoutingRequest \<Rightarrow> ExecutionContext \<Rightarrow> int \<Rightarrow> World
     \<Rightarrow> (routing_error + route_output) \<times> World" where
  "ROUTE_BY_METADATA sv co pattern context' previousLatency w =
     (let requiredSkills = EXTRACT_SKILLS (pattern_metadata pattern);
          patternType = EXTRACT_PATTERN_TYPE (pattern_metadata pattern)
      in case FIND_AGENTS_BY_SKILLS co requiredSkills (status ''active'') of
           Inl e \<Rightarrow> (Inl (Unhandled e), w)
         | Inr candidates \<Rightarrow>
             (if length candidates = 0 then
                (let (ed, w) = BUILD_ERROR_DECISION co ''No agents match required skills'' w
                 in (Inr (ErrorOnly ed), w))
              else
                (let agentScores =
                       fold (\<lambda>agent m. dict_set m (agent_id agent)
                                (GET_SUCCESS_RATE sv (agent_id agent) patternType))
                            candidates []
                 in case SORT_BY_SCORE (SORT_ORDER co) candidates agentScores True of
                      Inl e \<Rightarrow> (Inl (Unhandled e), w)
                    | Inr [] \<Rightarrow> (Inl (Unhandled IndexError), w)
                    | Inr (primaryAgent # _) \<Rightarrow>
                        (case dict_get agentScores (agent_id primaryAgent) of
                           Inl e \<Rightarrow> (Inl (Unhandled e), w)
                         | Inr sc \<Rightarrow>
                             (let (uuid, w) = GENERATE_UUID w
                              in (Inr (DecisionOnly
                                    \<lparr> decision_id = uuid,
                                      dec_request_id = None,
                                      timestamp = None,
                                      primary_agent =
                                        \<lparr> pa_agent_id = agent_id primaryAgent,
                                          pa_name = None,
                                          pa_score = sc \<rparr>,
                                      alternatives = [],
                                      confidence_score = 0.5,
                                      confidence_rationale = None,
                                      confidence_calibration_factor = None,
                                      scoring_breakdown = None,
                                      consensus = None,
                                      reasoning =
                                        ''Routing by metadata matching (embedding unavailable)'',
                                      fallback_applied = Some ''metadata_routing'',
                                      dec_user_id = None,
                                      execution_context_snapshot = None \<rparr>), w))))))"

subsection \<open>The orchestrator: \<open>SemanticRoute\<close>\<close>

text \<open>
  The waits of \<open>VALIDATE_BYZANTINE\<close> on the spawned tasks, against the clock of the world:
  the observations the collection loop makes until it ends or its total-timeout check
  fires.
\<close>

fun wait_for_tasks ::
  "int \<Rightarrow> (exn + bool) list \<Rightarrow> nat \<Rightarrow> World \<Rightarrow> (task_result \<times> int) list \<times> World" where
  "wait_for_tasks consensusStartTime [] i w = ([], w)"
| "wait_for_tasks consensusStartTime (task # tasks) i w =
     (let r = WAIT_FOR_TASK task (task_finished w i);
          (now, w) = CURRENT_TIME_MS w
      in if (now - consensusStartTime) > 50 then ([(r, now)], w)
         else (let (rest, w) = wait_for_tasks consensusStartTime tasks (Suc i) w
               in ((r, now) # rest, w)))"

text \<open>
  Phase 9. The result is (\<open>consensusResult\<close>, \<open>consensusLatency\<close>,
  \<open>consensusValidatorsAgreed\<close>).
\<close>

definition consensus_phase ::
  "Services \<Rightarrow> Collaborators \<Rightarrow> bool \<Rightarrow> AgentCapabilityProfile \<Rightarrow> AgentCapabilityProfile list
     \<Rightarrow> PatternRoutingRequest \<Rightarrow> ExecutionContext \<Rightarrow> World
     \<Rightarrow> (string \<times> int \<times> nat) \<times> World" where
  "consensus_phase sv co consensusRequired primaryAgent alternativeAgents pattern context' w =
     (if consensusRequired then
        (let (consensusStart, w) = CURRENT_TIME_MS w;
             (consensusStartTime, w) = CURRENT_TIME_MS w;
             (observations, w) =
               wait_for_tasks consensusStartTime
                 (validatorTasks sv primaryAgent alternativeAgents pattern context') 0 w;
             consensusResult = VALIDATE_BYZANTINE 5 3 consensusStartTime observations;
             (now, w) = CURRENT_TIME_MS w;
             consensusLatency = now - consensusStart;
             consensusValidatorsAgreed =
               GET_VALIDATOR_AGREEMENT_COUNT co (map fst observations)
         in ((consensusResult, consensusLatency, consensusValidatorsAgreed), w))
      else ((''NONE'', 0, 0), w))"

text \<open>Phases 10 to 15: calibration, decision assembly, persistence and return.\<close>

definition decide_phase ::
  "Services \<Rightarrow> Collaborators \<Rightarrow> PatternRoutingRequest \<Rightarrow> ExecutionContext \<Rightarrow> int \<Rightarrow> string
     \<Rightarrow> string \<Rightarrow> AgentCapabilityProfile \<Rightarrow> real \<Rightarrow> AgentCapabilityProfile list
     \<Rightarrow> (string \<times> real) list \<Rightarrow> (string \<times> real) list \<Rightarrow> bool \<Rightarrow> string \<times> int \<times> nat \<Rightarrow> World
     \<Rightarrow> (routing_error + route_output) \<times> World" where
  "decide_phase sv co patternRequest executionContext startTime decisionId cacheKey
       primaryAgent primaryScore alternativeAgents agentScores candidates consensusRequired
       consensusOutcome w =
     (let (consensusResult, consensusLatency, consensusValidatorsAgreed) = consensusOutcome
      in case (case alternativeAgents of
                 [] \<Rightarrow> Inr 0.0
               | a # _ \<Rightarrow> dict_get agentScores (agent_id a)) of
           Inl e \<Rightarrow> (Inl (Unhandled e), w)
         | Inr secondaryScore \<Rightarrow>
             (let confidenceScore =
                    try_or 0.5
                      (CALIBRATE_CONFIDENCE sv primaryScore secondaryScore
                         consensusValidatorsAgreed consensusRequired patternRequest
                         executionContext agentScores);
                  reasoning' =
                    BUILD_REASONING_STRING co primaryAgent primaryScore secondaryScore
                      confidenceScore patternRequest agentScores;
                  scoringBreakdown =
                    (if explain_reasoning patternRequest then
                       Some (BUILD_SCORING_BREAKDOWN co primaryAgent agentScores
                               (expertScores_of sv primaryAgent patternRequest executionContext
                                  candidates (EXTRACT_SIMILARITY_SCORES candidates)))
                     else None);
                  (now, w) = CURRENT_ISO8601_TIMESTAMP w
              in case BUILD_ALTERNATIVES alternativeAgents agentScores of
                   Inl e \<Rightarrow> (Inl (Unhandled e), w)
                 | Inr alts \<Rightarrow>
                     (case COMPUTE_ENTROPY sv (EXTRACT_SCORES co agentScores) of
                        Inl e \<Rightarrow> (Inl (Unhandled e), w)
                      | Inr entropy \<Rightarrow>
                          (let (snapshot, w) = SNAPSHOT_CONTEXT executionContext w;
                               decision =
                                 \<lparr> decision_id = decisionId,
                                   dec_request_id = Some (request_id patternRequest),
                                   timestamp = Some now,
                                   primary_agent =
                                     \<lparr> pa_agent_id = agent_id primaryAgent,
                                       pa_name = Some (name primaryAgent),
                                       pa_score = primaryScore \<rparr>,
                                   alternatives = alts,
                                   confidence_score = confidenceScore,
                                   confidence_rationale =
                                     Some (BUILD_CONFIDENCE_RATIONALE co
                                             (primaryScore - secondaryScore) entropy
                                             consensusResult),
                                   confidence_calibration_factor =
                                     Some (GET_CALIBRATION_FACTOR co),
                                   scoring_breakdown = scoringBreakdown,
                                   consensus =
                                     (if consensusRequired then
                                        Some \<lparr> required = True,
                                               validators = 5,
                                               validators_agreed = consensusValidatorsAgreed,
                                               consensus_result = consensusResult,
                                               validation_latency_ms = consensusLatency \<rparr>
                                      else None),
                                   reasoning = reasoning',
                                   fallback_applied = None,
                                   dec_user_id = Some (user_id patternRequest),
                                   execution_context_snapshot = Some snapshot \<rparr>;
                               w = (case LOG_ROUTING_DECISION co decision of
                                      Inl e \<Rightarrow> w
                                    | Inr u \<Rightarrow> CACHE_SET cacheKey decision 300 w);
                               (endTime, w) = CURRENT_TIME_MS w;
                               totalLatency = endTime - startTime
                           in (Inr (DecisionWithLatency decision totalLatency), w)))))"

text \<open>The scoring loop of phase 7: one dictionary entry per eligible agent.\<close>

definition score_agents ::
  "Services \<Rightarrow> PatternRoutingRequest \<Rightarrow> ExecutionContext \<Rightarrow> (string \<times> real) list
     \<Rightarrow> AgentCapabilityProfile list \<Rightarrow> (string \<times> real) list" where
  "score_agents sv patternRequest executionContext candidates eligibleAgents =
     fold (\<lambda>agent agentScores.
             dict_set agentScores (agent_id agent)
               (try_or 0.5
                  (COMPUTE_EXPERT_SCORE sv agent patternRequest executionContext candidates
                     (EXTRACT_SIMILARITY_SCORES candidates))))
          eligibleAgents []"

text \<open>Phases 5 to 9, from the candidate list to the consensus verdict.\<close>

definition rank_phase ::
  "Services \<Rightarrow> Collaborators \<Rightarrow> PatternRoutingRequest \<Rightarrow> ExecutionContext
     \<Rightarrow> RoutingConstraints option \<Rightarrow> int \<Rightarrow> string \<Rightarrow> string \<Rightarrow> (string \<times> real) list \<Rightarrow> World
     \<Rightarrow> (routing_error + route_output) \<times> World" where
  "rank_phase sv co patternRequest executionContext routingConstraints startTime decisionId
       cacheKey candidates w =
     (let candidateAgentIds = map fst candidates
      in case BATCH_GET_PROFILES co candidateAgentIds True of
           Inl e \<Rightarrow> (Inl (RoutingServiceError ''Cannot load agent profiles''), w)
         | Inr agentProfiles \<Rightarrow>
             (if length agentProfiles = 0
              then (Inl (NoAgentsAvailableError ''No agent profiles found''), w)
              else
                (let eligibleAgents =
                       FILTER_AGENTS co agentProfiles routingConstraints
                         (excluded_agents patternRequest) (preferred_agents patternRequest)
                 in if length eligibleAgents = 0 then
                      (let (now, w) = CURRENT_TIME_MS w;
                           (r, w) =
                             APPLY_FALLBACK_STRATEGY sv co patternRequest executionContext
                               ''No agents match constraints'' (now - startTime) w
                       in (map_sum id DecisionOnly r, w))
                    else
                      (let agentScores =
                             score_agents sv patternRequest executionContext candidates
                               eligibleAgents
                       in case SORT_BY_SCORE (SORT_ORDER co) eligibleAgents agentScores True of
                            Inl e \<Rightarrow> (Inl (Unhandled e), w)
                          | Inr [] \<Rightarrow> (Inl (RoutingError ''No agents could be ranked''), w)
                          | Inr (primaryAgent # rest) \<Rightarrow>
                              (case dict_get agentScores (agent_id primaryAgent) of
                                 Inl e \<Rightarrow> (Inl (Unhandled e), w)
                               | Inr primaryScore \<Rightarrow>
                                   (let alternativeAgents = TAKE co (primaryAgent # rest) 1 3;
                                        consensusRequired =
                                          ((case routingConstraints of
                                              None \<Rightarrow> False
                                            | Some c \<Rightarrow> require_consensus c)
                                           \<or> IS_CRITICAL_PATTERN co patternRequest);
                                        (consensusOutcome, w) =
                                          consensus_phase sv co consensusRequired primaryAgent
                                            alternativeAgents patternRequest executionContext w;
                                        consensusResult = fst consensusOutcome
                                    in if consensusRequired
                                          \<and> (consensusResult = ''ESCALATE''
                                               \<or> consensusResult = ''ERROR'')
                                       then
                                         (let (now, w) = CURRENT_TIME_MS w;
                                              (r, w) =
                                                APPLY_FALLBACK_STRATEGY sv co patternRequest
                                                  executionContext
                                                  (''Consensus failed: '' @ consensusResult)
                                                  (now - startTime) w
                                          in (map_sum id DecisionOnly r, w))
                                       else
                                         decide_phase sv co patternRequest executionContext
                                           startTime decisionId cacheKey primaryAgent
                                           primaryScore alternativeAgents agentScores
                                           candidates consensusRequired consensusOutcome
                                           w))))))"

text \<open>Phases 3 and 4: the embedding and the nearest-neighbour search.\<close>

definition search_phase ::
  "Services \<Rightarrow> Collaborators \<Rightarrow> PatternRoutingRequest \<Rightarrow> ExecutionContext
     \<Rightarrow> RoutingConstraints option \<Rightarrow> int \<Rightarrow> string \<Rightarrow> string \<Rightarrow> World
     \<Rightarrow> (routing_error + route_output) \<times> World" where
  "search_phase sv co patternRequest executionContext routingConstraints startTime decisionId
       cacheKey w =
     (case (case pattern_embedding patternRequest of
              Some v \<Rightarrow> Inr v
            | None \<Rightarrow>
                EMBED_PATTERN co (pattern_query patternRequest)
                  (pattern_metadata patternRequest)) of
        Inl e \<Rightarrow>
          (let (now, w) = CURRENT_TIME_MS w
           in ROUTE_BY_METADATA sv co patternRequest executionContext (now - startTime) w)
      | Inr patternEmbedding \<Rightarrow>
          (if length patternEmbedding \<noteq> 1536
           then (Inl (Unhandled (ValueError ''Invalid embedding dimension'')), w)
           else
             (let candidates =
                    (case HNSW_SEARCH co patternEmbedding 10 40 of
                       Inl e \<Rightarrow> METADATA_FALLBACK_SEARCH co patternRequest 10
                     | Inr found \<Rightarrow>
                         (if length found = 0
                          then METADATA_FALLBACK_SEARCH co patternRequest 10
                          else found))
              in if length candidates = 0
                 then (Inl (NoAgentsAvailableError
                              ''Cannot route pattern - no candidates found''), w)
                 else rank_phase sv co patternRequest executionContext routingConstraints
                        startTime decisionId cacheKey candidates w)))"

definition SemanticRoute ::
  "Services \<Rightarrow> Collaborators \<Rightarrow> PatternRoutingRequest \<Rightarrow> ExecutionContext
     \<Rightarrow> RoutingConstraints option \<Rightarrow> World \<Rightarrow> (routing_error + route_output) \<times> World" where
  "SemanticRoute sv co patternRequest executionContext routingConstraints w =
     (let (startTime, w) = CURRENT_TIME_MS w;
          (decisionId, w) = GENERATE_UUID w
      in case (case VALIDATE_PATTERN_REQUEST co patternRequest of
                 Some msg \<Rightarrow> Some msg
               | None \<Rightarrow> VALIDATE_EXECUTION_CONTEXT co executionContext) of
           Some msg \<Rightarrow> (Inl (HttpError 400 ''Invalid routing request''), w)
         | None \<Rightarrow>
             (let cacheKey = COMPUTE_CACHE_KEY co patternRequest executionContext
              in case CACHE_GET w cacheKey of
                   Some cachedDecision \<Rightarrow>
                     (let (now, w) = CURRENT_TIME_MS w
                      in (Inr (DecisionWithLatency cachedDecision (now - startTime)), w))
                 | None \<Rightarrow>
                     search_phase sv co patternRequest executionContext routingConstraints
                       startTime decisionId cacheKey w))"

text \<open>The decision inside an output, if it carries one.\<close>

definition decision_of :: "route_output \<Rightarrow> RoutingDecision option" where
  "decision_of out =
     (case out of
        DecisionWithLatency d l \<Rightarrow> Some d
      | DecisionOnly d \<Rightarrow> Some d
      | ErrorOnly e \<Rightarrow> None)"

subsection \<open>Predicates for the range and repetition properties\<close>

definition unit_interval :: "real \<Rightarrow> bool" where
  "unit_interval x = (0 \<le> x \<and> x \<le> 1)"

text \<open>Every decision in the cache has its confidence in [0, 1].\<close>

definition cached_confidences_ok :: "World \<Rightarrow> bool" where
  "cached_confidences_ok w =
     list_all (\<lambda>kd. unit_interval (confidence_score (fst (snd kd)))) (cache w)"

text \<open>A cache that is the old one, or the old one with one more decision of sound confidence.\<close>

definition cache_extended :: "World \<Rightarrow> World \<Rightarrow> bool" where
  "cache_extended w w' =
     (cache w' = cache w
      \<or> (case cache w' of
            [] \<Rightarrow> False
          | entry # older \<Rightarrow>
              older = cache w \<and> unit_interval (confidence_score (fst (snd entry)))))"

text \<open>The decision a run of the pipeline returned, if it returned one.\<close>

definition routed_decision ::
  "(routing_error + route_output) \<times> World \<Rightarrow> RoutingDecision option" where
  "routed_decision r = (case fst r of Inl e \<Rightarrow> None | Inr out \<Rightarrow> decision_of out)"

definition decision_summary :: "RoutingDecision \<Rightarrow> string \<times> string \<times> real" where
  "decision_summary d = (decision_id d, pa_agent_id (primary_agent d), confidence_score d)"








section \<open>Example data\<close>

definition agent_fast :: AgentCapabilityProfile where
  "agent_fast =
     \<lparr> agent_id = ''agent1'', name = ''Fast'', skills = [''auth''], specializations = [],
       success_rate_by_type = [(''auth'', 0.95)], success_rate_default = 0.8,
       recent_wins = [],
       latency_profile = \<lparr> p50 = 50, p95 = 120, p99 = 150, max_ms = 300 \<rparr>,
       team_assignments = 1, team_capacity = 4, is_available = True \<rparr>"

definition two_tied :: "(string \<times> real) list" where
  "two_tied = [(''agent1'', 0.9), (''agent2'', 0.9)]"

text \<open>
  Five waits that all end within the deadline: three validators answer false, two raise.
\<close>

definition obs_two_abstentions :: "(task_result \<times> int) list" where
  "obs_two_abstentions =
     [(Completed False, 10), (Completed False, 12), (Completed False, 15),
      (Exception (ExternalError ''validator failed''), 16),
      (Exception (ExternalError ''validator failed''), 18)]"

definition agent_a :: AgentCapabilityProfile where
  "agent_a = agent_fast \<lparr> agent_id := ''agent-a'', name := ''A'' \<rparr>"

definition agent_b :: AgentCapabilityProfile where
  "agent_b = agent_fast \<lparr> agent_id := ''agent-b'', name := ''B'' \<rparr>"

definition tie_scores :: "(string \<times> real) list" where
  "tie_scores = [(''agent-a'', 0.8), (''agent-b'', 0.8)]"

text \<open>
  Two sort primitives: a stable one, which leaves equal scores in input order, and one that
  reverses the input before sorting it stably, which leaves them in reverse input order.
\<close>

definition stable_order :: "real list \<Rightarrow> bool \<Rightarrow> nat list" where
  "stable_order keys descending =
     sort_key (\<lambda>i. if descending then - (keys ! i) else keys ! i) [0..<length keys]"

definition reversing_order :: "real list \<Rightarrow> bool \<Rightarrow> nat list" where
  "reversing_order keys descending =
     sort_key (\<lambda>i. if descending then - (keys ! i) else keys ! i) (rev [0..<length keys])"

text \<open>History stores that know nothing of the agents or the pattern.\<close>

definition services_example :: Services where
  "services_example =
     \<lparr> GET_SUCCESS_RATE = (\<lambda>a t. 0.9),
       CURRENT_TIMESTAMP = 1000,
       EXTRACT_SPECIALIZATIONS = (\<lambda>md. []),
       AGENT_ALREADY_ASSIGNED = (\<lambda>a c. False),
       COUNT_SIMILAR_AGENTS_ASSIGNED = (\<lambda>a c t. 0),
       GET_USER_AGENT_SUCCESS_RATE = (\<lambda>u a d. None),
       AGENT_ACTIVE_AT_TIME_OF_DAY = (\<lambda>a t. False),
       GET_AGENT_LAST_EXECUTION_TIME = (\<lambda>a. None),
       GET_AGENT_RECENT_ACCURACY = (\<lambda>a d. None),
       GET_PATTERN_EXECUTION_SUCCESS_RATE = (\<lambda>p r. None),
       EXTRACT_SORTED_SCORES = (\<lambda>m. map snd m),
       COMPUTE_ENTROPY = (\<lambda>xs. Inr 0),
       GET_AGENT_SIMILARITY_SCORE = (\<lambda>a. 0.9) \<rparr>"

definition request_example :: PatternRoutingRequest where
  "request_example =
     \<lparr> pattern_id = ''pattern-1'', pattern_query = ''rotate the signing keys'',
       pattern_metadata = [(''type'', ''auth'')], pattern_embedding = None,
       preferred_agents = None, excluded_agents = None, constraints = None,
       explain_reasoning = False, request_id = ''req-1'', user_id = ''user-1'' \<rparr>"

definition context_example :: ExecutionContext where
  "context_example =
     \<lparr> ctx_user_id = ''user-1'', session_id = ''session-1'', time_of_day = ''morning'',
       user_preferences = \<lparr> up_preferred_agents = [], up_excluded_agents = [] \<rparr>,
       current_agent_id = ''agent-a'' \<rparr>"

text \<open>
  Collaborators for a request without history: no cached alternatives, no agent found by
  skills, no best agent by success history, no default agent; the two agents \<open>agent-a\<close>
  and \<open>agent-b\<close> are available, the round-robin selector takes the agent at the rotation
  pointer and advances the pointer, and the constraint filter rejects every candidate.
\<close>

definition collaborators_example :: Collaborators where
  "collaborators_example =
     \<lparr> GET_CACHED_ALTERNATIVES = (\<lambda>p. Inr None),
       IS_AVAILABLE = (\<lambda>a. Inr (is_available a)),
       FIND_AGENTS_BY_SKILLS = (\<lambda>sk q. Inr []),
       SORT_BY_SUCCESS_RATE = (\<lambda>agents. Inr agents),
       GET_BEST_AGENT_FOR_PATTERN_TYPE = (\<lambda>t av. Inr None),
       GET_AVAILABLE_AGENTS = (\<lambda>st. Inr [agent_a, agent_b]),
       ROUND_ROBIN_SELECT =
         (\<lambda>pointer agents.
            case agents of
              [] \<Rightarrow> Inl IndexError
            | a # _ \<Rightarrow> Inr (agents ! (pointer mod length agents), Suc pointer)),
       GET_DEFAULT_FALLBACK_AGENT = Inr None,
       VALIDATE_PATTERN_REQUEST = (\<lambda>p. None),
       VALIDATE_EXECUTION_CONTEXT = (\<lambda>c. None),
       COMPUTE_CACHE_KEY = (\<lambda>p c. pattern_id p @ '':'' @ session_id c),
       EMBED_PATTERN = (\<lambda>q md. Inr (replicate 1536 0)),
       HNSW_SEARCH = (\<lambda>v k ef. Inr [(''agent-a'', 0.9), (''agent-b'', 0.8)]),
       METADATA_FALLBACK_SEARCH = (\<lambda>p k. []),
       BATCH_GET_PROFILES = (\<lambda>ids h. Inr [agent_a, agent_b]),
       FILTER_AGENTS = (\<lambda>agents c ex pr. []),
       TAKE = (\<lambda>xs start n. take n (drop start xs)),
       SORT_ORDER = stable_order,
       IS_CRITICAL_PATTERN = (\<lambda>p. False),
       GET_VALIDATOR_AGREEMENT_COUNT =
         (\<lambda>results. length (filter (\<lambda>r. r = Completed True) results)),
       EXTRACT_SCORES = (\<lambda>m. map snd m),
       BUILD_CONFIDENCE_RATIONALE = (\<lambda>gap entropy c. ''rationale''),
       GET_CALIBRATION_FACTOR = 1,
       BUILD_SCORING_BREAKDOWN = (\<lambda>a m ex. ex),
       LOG_ROUTING_DECISION = (\<lambda>d. Inr ()),
       CURRENT_REQUEST_ID = ''req-1'',
       ROUND = (\<lambda>x n. ''0.00''),
       NUMBER_TO_STRING = (\<lambda>n. replicate n CHR ''|'') \<rparr>"

text \<open>
  A fresh state: the \<open>n\<close>-th UUID is \<open>uuid-\<close> followed by \<open>n\<close> letters, the clock advances
  one millisecond per reading, the cache is empty.
\<close>

definition world_example :: World where
  "world_example =
     \<lparr> UUID_V4 = (\<lambda>n. ''uuid-'' @ replicate n CHR ''x''),
       uuids_drawn = 0,
       SYSTEM_CLOCK_MILLISECONDS = (\<lambda>n. 1000 + int n),
       clock_reads = 0,
       task_finished = (\<lambda>i. True),
       rotation_pointer = 0,
       cache = [] \<rparr>"

text \<open>The same collaborators with a constraint filter that lets \<open>agent-a\<close> through.\<close>

definition collaborators_primary :: Collaborators where
  "collaborators_primary =
     collaborators_example \<lparr> FILTER_AGENTS := (\<lambda>agents c ex pr. [agent_a]) \<rparr>"

text \<open>
  A request that declares a priority outside the latency table, with a latency ceiling.
\<close>

definition request_urgent :: PatternRoutingRequest where
  "request_urgent =
     request_example
       \<lparr> pattern_metadata := [(''type'', ''auth''), (''priority'', ''urgent'')],
         constraints :=
           Some \<lparr> max_latency_ms = Some 250, required_security_level = None,
                  require_consensus = False, skill_constraints = None \<rparr> \<rparr>"

text \<open>
  An accuracy history that knows the two agents, and a context whose \<open>current_agent_id\<close>
  names \<open>agent-b\<close>.
\<close>

definition services_history :: Services where
  "services_history =
     services_example
       \<lparr> GET_AGENT_RECENT_ACCURACY :=
           (\<lambda>a d. if a = ''agent-a'' then Some 0.7
                  else if a = ''agent-b'' then Some 1 else None) \<rparr>"

definition context_other :: ExecutionContext where
  "context_other = context_example \<lparr> current_agent_id := ''agent-b'' \<rparr>"

text \<open>Routing constraints that constrain nothing, without and with required consensus.\<close>

definition constraints_example :: "RoutingConstraints option" where
  "constraints_example =
     Some \<lparr> max_latency_ms = None, required_security_level = None,
            require_consensus = False, skill_constraints = None \<rparr>"

definition constraints_consensus :: "RoutingConstraints option" where
  "constraints_consensus =
     Some \<lparr> max_latency_ms = None, required_security_level = None,
            require_consensus = True, skill_constraints = None \<rparr>"

text \<open>
  The collaborators of the request without eligible candidates, with a success history
  that names \<open>agent-b\<close> as the best agent for the pattern type.
\<close>

definition collaborators_history :: Collaborators where
  "collaborators_history =
     collaborators_example
       \<lparr> GET_BEST_AGENT_FOR_PATTERN_TYPE := (\<lambda>t av. Inr (Some agent_b)) \<rparr>"

text \<open>
  Three more states: the fresh state some readings and one identifier later; a state whose
  clock advances 100 ms per reading; and a state whose cache holds, under the key of the
  example request, a decision for \<open>agent-b\<close> that expires at 301000 ms.
\<close>

definition world_later :: World where
  "world_later = world_example \<lparr> uuids_drawn := 1, clock_reads := 7 \<rparr>"

definition world_slow :: World where
  "world_slow = world_example \<lparr> SYSTEM_CLOCK_MILLISECONDS := (\<lambda>n. 1000 + 100 * int n) \<rparr>"

definition planted_decision :: RoutingDecision where
  "planted_decision =
     fst (BUILD_FALLBACK_DECISION services_example agent_b ''default_agent'' 0.3
            ''Using designated default fallback agent'' world_example)"

definition world_planted :: World where
  "world_planted =
     world_example \<lparr> cache := [(''pattern-1:session-1'', planted_decision, 301000)] \<rparr>"

section \<open>Properties\<close>

subsection \<open>Utilities\<close>

lemma CLAMP_bounds: "mn \<le> mx \<Longrightarrow> mn \<le> CLAMP v mn mx \<and> CLAMP v mn mx \<le> mx"
  by (simp add: CLAMP_def)

lemma CLAMP_unit: "0 \<le> CLAMP v 0 1 \<and> CLAMP v 0 1 \<le> 1"
  by (simp add: CLAMP_def)

lemma CLAMP_id: "mn \<le> v \<Longrightarrow> v \<le> mx \<Longrightarrow> CLAMP v mn mx = v"
  by (simp add: CLAMP_def)

text \<open>The definitions that a run of the pipeline on the example data unfolds.\<close>

lemmas pipeline_defs =
  SemanticRoute_def search_phase_def rank_phase_def decide_phase_def consensus_phase_def
  score_agents_def SORT_BY_SCORE_def arrange_def stable_order_def dict_get_def
  BUILD_ALTERNATIVES_def SNAPSHOT_CONTEXT_def CLOCK_NOW_def CACHE_GET_def CACHE_SET_def
  CURRENT_TIME_MS_def CURRENT_ISO8601_TIMESTAMP_def GENERATE_UUID_def
  APPLY_FALLBACK_STRATEGY_def fallbackChain_def try_strategy_def
  strategy_alternatives_def strategy_skill_match_def strategy_success_history_def
  strategy_round_robin_def strategy_default_agent_def BUILD_FALLBACK_DECISION_def
  EXTRACT_SKILLS_def EXTRACT_PATTERN_TYPE_def EXTRACT_PRIORITY_def
  validatorTasks_def VALIDATE_SEMANTIC_SIMILARITY_def VALIDATE_SUCCESS_RATE_def
  VALIDATE_CAPABILITY_MATCH_def VALIDATE_CONTEXT_RELEVANCE_def VALIDATE_TEAM_DIVERSITY_def
  WAIT_FOR_TASK_def VALIDATE_BYZANTINE_def validator_result_def COUNT_TRUE_def COUNT_NULL_def
  CALIBRATE_CONFIDENCE_def uncertaintyPenalty_of_def consensusBonus_of_def
  calibrationFactor_of_def patternUncertaintyPenalty_of_def try_or_def CLAMP_def
  decision_summary_def routed_decision_def decision_of_def Let_def

lemmas scoring_defs =
  COMPUTE_EXPERT_SCORE_def weights_assertion_def weightSum_def weighted_sum_def values_of_def
  weights_def expertScores_of_def normalize_scores_def
  expert_scores_raw_def EXPERT_SIMILARITY_def EXTRACT_SIMILARITY_SCORES_def MAX_of_def
  EXPERT_METADATA_def EXPERT_SUCCESS_RATE_def EXPERT_RECENCY_def EXPERT_TEAM_DIVERSITY_def
  EXPERT_LATENCY_FIT_def priorityLatencies_def EXPERT_CONTEXT_RELEVANCE_def
  EXPERT_CONFIDENCE_CALIBRATION_def INTERSECTION_def

lemmas example_defs =
  services_example_def collaborators_example_def collaborators_primary_def
  request_example_def context_example_def world_example_def agent_a_def agent_b_def
  agent_fast_def constraints_example_def constraints_consensus_def
  collaborators_history_def world_slow_def world_later_def world_planted_def
  planted_decision_def services_history_def context_other_def

subsection \<open>The weight vector\<close>

text \<open>
  Claim C8. The fixed eight-element weight vector of the scoring engine
  (0.25, 0.15, 0.20, 0.10, 0.10, 0.10, 0.07, 0.03) sums to exactly 1.0, so the
  assertion \<open>ABS(weightSum - 1.0) < 0.0001\<close> of \<open>COMPUTE_EXPERT_SCORE\<close> holds.
\<close>

theorem weights_sum_to_one:
  "values_of weights = [0.25, 0.15, 0.20, 0.10, 0.10, 0.10, 0.07, 0.03]
   \<and> weightSum = 1.0 \<and> weights_assertion"
  by (simp add: weights_assertion_def weightSum_def values_of_def weights_def)

subsection \<open>Expert 1: similarity\<close>

lemma find_agent_None: "find_agent a cs i = None \<longleftrightarrow> a \<notin> fst ` set cs"
  by (induction cs arbitrary: i) auto

lemma find_agent_Some:
  "j < length cs \<Longrightarrow> fst (cs ! j) = a \<Longrightarrow> (\<forall>k<j. fst (cs ! k) \<noteq> a)
     \<Longrightarrow> find_agent a cs i = Some (i + j, snd (cs ! j))"
proof (induction cs arbitrary: i j)
  case Nil
  then show ?case by simp
next
  case (Cons c cs)
  show ?case
  proof (cases j)
    case 0
    with Cons.prems show ?thesis by simp
  next
    case (Suc j')
    from Cons.prems Suc have "fst c \<noteq> a" by auto
    moreover have "find_agent a cs (Suc i) = Some (Suc i + j', snd (cs ! j'))"
      using Cons.prems Suc by (intro Cons.IH) auto
    ultimately show ?thesis using Suc by simp
  qed
qed

lemma MAX_of_Max: "xs \<noteq> [] \<Longrightarrow> MAX_of xs = Inr (Max (set xs))"
  by (cases xs) (simp_all add: MAX_of_def Max.set_eq_fold [symmetric])

text \<open>
  Claim C5, as the code has it. An agent absent from the candidate set scores 0. An agent
  first found at rank \<open>j\<close> scores the clamp to [0, 1] of its similarity divided by the
  maximum candidate similarity (0 when that maximum is 0, the guard against the zero
  denominator), times the rank discount \<open>1 - 0.02 j\<close>. So when all similarities are equal
  and not zero the candidate at rank \<open>j \<le> 50\<close> scores \<open>1 - 0.02 j\<close> (only rank 0 scores
  1.0), and when all similarities are 0 every candidate scores 0.
\<close>

theorem EXPERT_SIMILARITY_cases:
  "(agentId \<notin> fst ` set candidates \<longrightarrow>
      EXPERT_SIMILARITY agentId candidates (EXTRACT_SIMILARITY_SCORES candidates) = Inr 0)
   \<and> (\<forall>j. j < length candidates \<and> fst (candidates ! j) = agentId
            \<and> (\<forall>k<j. fst (candidates ! k) \<noteq> agentId) \<longrightarrow>
        EXPERT_SIMILARITY agentId candidates (EXTRACT_SIMILARITY_SCORES candidates) =
          Inr (CLAMP ((if Max (snd ` set candidates) = 0 then 0
                       else snd (candidates ! j) / Max (snd ` set candidates))
                      * (1 - real j * 0.02)) 0 1)
        \<and> ((\<forall>c \<in> set candidates. snd c = snd (candidates ! j)) \<and> snd (candidates ! j) \<noteq> 0
               \<and> j \<le> 50 \<longrightarrow>
             EXPERT_SIMILARITY agentId candidates (EXTRACT_SIMILARITY_SCORES candidates) =
               Inr (1 - real j * 0.02))
        \<and> ((\<forall>c \<in> set candidates. snd c = 0) \<longrightarrow>
             EXPERT_SIMILARITY agentId candidates (EXTRACT_SIMILARITY_SCORES candidates) = Inr 0))"
proof (intro conjI impI allI)
  assume "agentId \<notin> fst ` set candidates"
  then have "find_agent agentId candidates 0 = None"
    by (simp add: find_agent_None)
  then show "EXPERT_SIMILARITY agentId candidates (EXTRACT_SIMILARITY_SCORES candidates) = Inr 0"
    by (simp add: EXPERT_SIMILARITY_def)
next
  fix j
  assume h: "j < length candidates \<and> fst (candidates ! j) = agentId
            \<and> (\<forall>k<j. fst (candidates ! k) \<noteq> agentId)"
  let ?M = "Max (snd ` set candidates)"
  let ?s = "snd (candidates ! j)"
  have ne: "candidates \<noteq> []" using h by auto
  have fa: "find_agent agentId candidates 0 = Some (j, ?s)"
    using find_agent_Some [of j candidates agentId 0] h by simp
  have mx: "MAX_of (EXTRACT_SIMILARITY_SCORES candidates) = Inr ?M"
    using ne by (simp add: EXTRACT_SIMILARITY_SCORES_def MAX_of_Max)
  show main: "EXPERT_SIMILARITY agentId candidates (EXTRACT_SIMILARITY_SCORES candidates) =
          Inr (CLAMP ((if ?M = 0 then 0 else ?s / ?M) * (1 - real j * 0.02)) 0 1)"
    by (simp add: EXPERT_SIMILARITY_def fa mx Let_def)
  {
    assume t: "(\<forall>c \<in> set candidates. snd c = ?s) \<and> ?s \<noteq> 0 \<and> j \<le> 50"
    then have "snd ` set candidates = {?s}" using ne by (cases candidates) auto
    then have "?M = ?s" by simp
    moreover have "0 \<le> 1 - real j * 0.02" "1 - real j * 0.02 \<le> 1" using t by simp_all
    ultimately show "EXPERT_SIMILARITY agentId candidates (EXTRACT_SIMILARITY_SCORES candidates) =
               Inr (1 - real j * 0.02)"
      using t main by (simp add: CLAMP_def)
  }
  {
    assume z: "\<forall>c \<in> set candidates. snd c = 0"
    then have "snd ` set candidates = {0}" using ne by (cases candidates) auto
    then have "?M = 0" by simp
    then show "EXPERT_SIMILARITY agentId candidates (EXTRACT_SIMILARITY_SCORES candidates) = Inr 0"
      using main by (simp add: CLAMP_def)
  }
qed

theorem EXPERT_SIMILARITY_cases_witness:
  "EXPERT_SIMILARITY ''agent2'' two_tied (EXTRACT_SIMILARITY_SCORES two_tied) = Inr 0.98
   \<and> EXPERT_SIMILARITY ''agent3'' two_tied (EXTRACT_SIMILARITY_SCORES two_tied) = Inr 0"
proof -
  note t = EXPERT_SIMILARITY_cases [of "''agent2''" two_tied, THEN conjunct2, THEN spec, of 1]
  have pre: "1 < length two_tied \<and> fst (two_tied ! 1) = ''agent2''
             \<and> (\<forall>k<1. fst (two_tied ! k) \<noteq> ''agent2'')"
    by (simp add: two_tied_def)
  have tie: "(\<forall>c \<in> set two_tied. snd c = snd (two_tied ! 1)) \<and> snd (two_tied ! 1) \<noteq> 0
             \<and> (1::nat) \<le> 50"
    by (simp add: two_tied_def)
  from t [THEN mp, OF pre] tie
  have "EXPERT_SIMILARITY ''agent2'' two_tied (EXTRACT_SIMILARITY_SCORES two_tied) =
          Inr (1 - real 1 * 0.02)"
    by blast
  moreover have "''agent3'' \<notin> fst ` set two_tied" by (simp add: two_tied_def)
  with EXPERT_SIMILARITY_cases [of "''agent3''" two_tied]
  have "EXPERT_SIMILARITY ''agent3'' two_tied (EXTRACT_SIMILARITY_SCORES two_tied) = Inr 0"
    by blast
  ultimately show ?thesis by simp
qed

text \<open>
  The claim as stated (tied candidates each score 1.0) fails for the second of two tied
  candidates, which the rank discount puts at 0.98.
\<close>

theorem tied_candidate_counterexample:
  "EXPERT_SIMILARITY ''agent2'' two_tied (EXTRACT_SIMILARITY_SCORES two_tied) = Inr 0.98
   \<and> EXPERT_SIMILARITY ''agent2'' two_tied (EXTRACT_SIMILARITY_SCORES two_tied) \<noteq> Inr 1.0"
  by (simp add: two_tied_def EXPERT_SIMILARITY_def EXTRACT_SIMILARITY_SCORES_def MAX_of_def
        CLAMP_def)

subsection \<open>Expert 6: latency fit\<close>

text \<open>
  A priority that is not a key of the latency table has no tier: the lookup fails before
  any comparison is made, and the \<open>TRY\<close> block of the engine scores the expert 0.5.
\<close>

lemma EXPERT_LATENCY_FIT_unknown_priority:
  "map_of priorityLatencies patternPriority = None \<Longrightarrow>
     EXPERT_LATENCY_FIT agent patternPriority maxLatency = Inl (KeyError patternPriority)
     \<and> try_or 0.5 (EXPERT_LATENCY_FIT agent patternPriority maxLatency) = 0.5"
  by (simp add: EXPERT_LATENCY_FIT_def try_or_def)

lemma tier_target_below_acceptable:
  assumes "map_of priorityLatencies pr = Some tier"
  shows "target tier < acceptable tier"
  using assms by (auto simp: priorityLatencies_def split: if_splits)

text \<open>
  A priority that is one of the tiers of the latency table: the expert returns 0 when the
  agent's maximum latency exceeds the caller's ceiling; otherwise it returns 1.0 when the
  agent's p99 is within the tier's target, the linear value
  \<open>1 - 0.4 (p99 - target) / (acceptable - target)\<close> (in [0.6, 1), and 0.6 at the acceptable
  bound) when p99 is between target and acceptable, and 0.1 beyond the acceptable bound.
\<close>

lemma EXPERT_LATENCY_FIT_known_tier:
  assumes tier: "map_of priorityLatencies patternPriority = Some tier"
  shows
   "(\<forall>m. maxLatency = Some m \<and> max_ms (latency_profile agent) > m \<longrightarrow>
        EXPERT_LATENCY_FIT agent patternPriority maxLatency = Inr 0)
    \<and> ((maxLatency = None \<or> (\<exists>m. maxLatency = Some m \<and> max_ms (latency_profile agent) \<le> m)) \<longrightarrow>
        (p99 (latency_profile agent) \<le> target tier \<longrightarrow>
           EXPERT_LATENCY_FIT agent patternPriority maxLatency = Inr 1)
      \<and> (target tier < p99 (latency_profile agent) \<and> p99 (latency_profile agent) \<le> acceptable tier \<longrightarrow>
           EXPERT_LATENCY_FIT agent patternPriority maxLatency =
             Inr (1 - (p99 (latency_profile agent) - target tier) / (acceptable tier - target tier) * 0.4)
           \<and> 0.6 \<le> 1 - (p99 (latency_profile agent) - target tier) / (acceptable tier - target tier) * 0.4
           \<and> 1 - (p99 (latency_profile agent) - target tier) / (acceptable tier - target tier) * 0.4 < 1)
      \<and> (p99 (latency_profile agent) = acceptable tier \<longrightarrow>
           EXPERT_LATENCY_FIT agent patternPriority maxLatency = Inr 0.6)
      \<and> (acceptable tier < p99 (latency_profile agent) \<longrightarrow>
           EXPERT_LATENCY_FIT agent patternPriority maxLatency = Inr 0.1))"
proof -
  let ?p = "p99 (latency_profile agent)"
  let ?t = "target tier" and ?a = "acceptable tier"
  let ?lin = "1 - (?p - ?t) / (?a - ?t) * 0.4"
  let ?S = "maxLatency = None \<or> (\<exists>m. maxLatency = Some m \<and> max_ms (latency_profile agent) \<le> m)"
  have ta: "?t < ?a" using tier by (rule tier_target_below_acceptable)
  have lin: "0.6 \<le> ?lin \<and> ?lin < 1" if "?t < ?p" "?p \<le> ?a"
  proof -
    define q where "q = (?p - ?t) / (?a - ?t)"
    have "0 < q" using that ta by (simp add: q_def)
    moreover have "q \<le> 1" using that ta by (simp add: q_def)
    moreover have "?lin = 1 - q * 0.4" by (simp add: q_def)
    ultimately show ?thesis by linarith
  qed
  have hard: "EXPERT_LATENCY_FIT agent patternPriority maxLatency = Inr 0"
    if "maxLatency = Some m" "max_ms (latency_profile agent) > m" for m
    using that tier by (simp add: EXPERT_LATENCY_FIT_def)
  have soft: "EXPERT_LATENCY_FIT agent patternPriority maxLatency =
      Inr (CLAMP (if ?p \<le> ?t then 1 else if ?p \<le> ?a then ?lin else 0.1) 0 1)"
    if "?S"
    using that tier by (auto simp: EXPERT_LATENCY_FIT_def Let_def)
  have at_bound: "?lin = 0.6" if "?p = ?a"
  proof -
    have "(?p - ?t) / (?a - ?t) = 1" using that ta by simp
    then show ?thesis by simp
  qed
  have a: "EXPERT_LATENCY_FIT agent patternPriority maxLatency = Inr 1"
    if "?S" "?p \<le> ?t"
    using soft [OF that(1)] that(2) by (simp add: CLAMP_def)
  have b: "EXPERT_LATENCY_FIT agent patternPriority maxLatency = Inr ?lin"
    if "?S" "?t < ?p" "?p \<le> ?a"
  proof -
    have "CLAMP ?lin 0 1 = ?lin"
      using lin [OF that(2,3)] by (intro CLAMP_id) linarith+
    then show ?thesis using soft [OF that(1)] that(2,3) by simp
  qed
  have c: "EXPERT_LATENCY_FIT agent patternPriority maxLatency = Inr 0.6"
    if "?S" "?p = ?a"
  proof -
    have "?t < ?p" "?p \<le> ?a" using that(2) ta by simp_all
    from b [OF that(1) this] at_bound [OF that(2)] show ?thesis by simp
  qed
  have d: "EXPERT_LATENCY_FIT agent patternPriority maxLatency = Inr 0.1"
    if "?S" "?a < ?p"
  proof -
    have "\<not> ?p \<le> ?t" "\<not> ?p \<le> ?a" using that(2) ta by simp_all
    then show ?thesis using soft [OF that(1)] by (simp add: CLAMP_def)
  qed
  show ?thesis
    using hard a b c d lin by blast
qed

text \<open>
  Claim C7, as the code has it. The expert looks the request's priority up in the latency
  table (keys \<open>low\<close>, \<open>medium\<close>, \<open>high\<close>, \<open>critical\<close>) before it compares anything, and
  the engine scores a failed expert 0.5. So for a priority that is not a key of the table
  the expert fails with a key error and the engine records 0.5, whatever the agent's
  latencies and the caller's ceiling are. For a priority that is a key of the table the
  expert returns 0 when the agent's maximum latency exceeds the caller's ceiling; otherwise
  1.0 when the agent's p99 is within the tier's target, the linear value
  \<open>1 - 0.4 (p99 - target) / (acceptable - target)\<close> (in [0.6, 1), and 0.6 at the acceptable
  bound) when p99 is between target and acceptable, and 0.1 beyond the acceptable bound.
\<close>

theorem EXPERT_LATENCY_FIT_by_priority:
  "map fst priorityLatencies = [''low'', ''medium'', ''high'', ''critical'']
   \<and> latency_fit (expert_scores_raw sv agent pattern context' candidates sims) =
       try_or 0.5 (EXPERT_LATENCY_FIT agent (EXTRACT_PRIORITY (pattern_metadata pattern))
                     (case constraints pattern of None \<Rightarrow> None | Some c \<Rightarrow> max_latency_ms c))
   \<and> (map_of priorityLatencies patternPriority = None \<longrightarrow>
        EXPERT_LATENCY_FIT agent patternPriority maxLatency = Inl (KeyError patternPriority)
        \<and> try_or 0.5 (EXPERT_LATENCY_FIT agent patternPriority maxLatency) = 0.5)
   \<and> (\<forall>tier. map_of priorityLatencies patternPriority = Some tier \<longrightarrow>
        (\<forall>m. maxLatency = Some m \<and> max_ms (latency_profile agent) > m \<longrightarrow>
            EXPERT_LATENCY_FIT agent patternPriority maxLatency = Inr 0)
        \<and> ((maxLatency = None
             \<or> (\<exists>m. maxLatency = Some m \<and> max_ms (latency_profile agent) \<le> m)) \<longrightarrow>
            (p99 (latency_profile agent) \<le> target tier \<longrightarrow>
               EXPERT_LATENCY_FIT agent patternPriority maxLatency = Inr 1)
          \<and> (target tier < p99 (latency_profile agent)
               \<and> p99 (latency_profile agent) \<le> acceptable tier \<longrightarrow>
               EXPERT_LATENCY_FIT agent patternPriority maxLatency =
                 Inr (1 - (p99 (latency_profile agent) - target tier)
                            / (acceptable tier - target tier) * 0.4)
               \<and> 0.6 \<le> 1 - (p99 (latency_profile agent) - target tier)
                             / (acceptable tier - target tier) * 0.4
               \<and> 1 - (p99 (latency_profile agent) - target tier)
                       / (acceptable tier - target tier) * 0.4 < 1)
          \<and> (p99 (latency_profile agent) = acceptable tier \<longrightarrow>
               EXPERT_LATENCY_FIT agent patternPriority maxLatency = Inr 0.6)
          \<and> (acceptable tier < p99 (latency_profile agent) \<longrightarrow>
               EXPERT_LATENCY_FIT agent patternPriority maxLatency = Inr 0.1)))"
proof -
  have 1: "map fst priorityLatencies = [''low'', ''medium'', ''high'', ''critical'']"
    by (simp add: priorityLatencies_def)
  have 2: "latency_fit (expert_scores_raw sv agent pattern context' candidates sims) =
       try_or 0.5 (EXPERT_LATENCY_FIT agent (EXTRACT_PRIORITY (pattern_metadata pattern))
                     (case constraints pattern of None \<Rightarrow> None | Some c \<Rightarrow> max_latency_ms c))"
    by (simp add: expert_scores_raw_def Let_def)
  from 1 2 EXPERT_LATENCY_FIT_unknown_priority [of patternPriority agent maxLatency]
    EXPERT_LATENCY_FIT_known_tier [of patternPriority _ maxLatency agent]
  show ?thesis by blast
qed

theorem EXPERT_LATENCY_FIT_by_priority_witness:
  "map_of priorityLatencies ''high'' = Some \<lparr> acceptable = 200, target = 100 \<rparr>
   \<and> EXPERT_LATENCY_FIT agent_fast ''high'' (Some 400) = Inr 0.8
   \<and> EXPERT_LATENCY_FIT agent_fast ''high'' (Some 250) = Inr 0
   \<and> map_of priorityLatencies ''low'' = Some \<lparr> acceptable = 1000, target = 500 \<rparr>
   \<and> EXPERT_LATENCY_FIT agent_fast ''low'' None = Inr 1
   \<and> map_of priorityLatencies ''critical'' = Some \<lparr> acceptable = 100, target = 50 \<rparr>
   \<and> EXPERT_LATENCY_FIT agent_fast ''critical'' None = Inr 0.1
   \<and> map_of priorityLatencies ''urgent'' = None
   \<and> EXPERT_LATENCY_FIT agent_fast ''urgent'' (Some 250) = Inl (KeyError ''urgent'')"
  using EXPERT_LATENCY_FIT_by_priority [of _ agent_fast _ _ _ _ "''high''" "Some 400"]
        EXPERT_LATENCY_FIT_by_priority [of _ agent_fast _ _ _ _ "''high''" "Some 250"]
        EXPERT_LATENCY_FIT_by_priority [of _ agent_fast _ _ _ _ "''low''" None]
        EXPERT_LATENCY_FIT_by_priority [of _ agent_fast _ _ _ _ "''critical''" None]
        EXPERT_LATENCY_FIT_by_priority [of _ agent_fast _ _ _ _ "''urgent''" "Some 250"]
  by (simp add: priorityLatencies_def agent_fast_def)

text \<open>
  The claim as stated (a score of 0 whenever the agent's maximum latency exceeds the
  caller's ceiling, for every request) fails for a request that declares the priority
  \<open>urgent\<close>, which is not a key of the latency table, and a ceiling of 250 ms: the agent's
  maximum latency is 300 ms, above the ceiling, yet the expert does not return 0. The
  lookup of the tier fails first, and the engine records 0.5 for the expert.
\<close>

theorem latency_ceiling_unknown_priority_counterexample:
  "EXTRACT_PRIORITY (pattern_metadata request_urgent) = ''urgent''
   \<and> map_option max_latency_ms (constraints request_urgent) = Some (Some 250)
   \<and> max_ms (latency_profile agent_fast) = 300
   \<and> EXPERT_LATENCY_FIT agent_fast ''urgent'' (Some 250) = Inl (KeyError ''urgent'')
   \<and> EXPERT_LATENCY_FIT agent_fast ''urgent'' (Some 250) \<noteq> Inr 0
   \<and> latency_fit (expertScores_of services_example agent_fast request_urgent context_example
                    [] []) = 0.5"
  by (simp add: request_urgent_def request_example_def EXTRACT_PRIORITY_def agent_fast_def
        EXPERT_LATENCY_FIT_def priorityLatencies_def expertScores_of_def normalize_scores_def
        expert_scores_raw_def try_or_def CLAMP_def Let_def)

subsection \<open>Consensus\<close>

lemma collect_results_None:
  "collect_results start obs acc = None \<longleftrightarrow> (\<exists>ob \<in> set obs. snd ob - start > 50)"
  by (induction start obs acc rule: collect_results.induct) (auto simp: Let_def)

lemma collect_results_Some:
  "collect_results start obs acc = Some rs \<Longrightarrow> rs = acc @ map (validator_result \<circ> fst) obs"
  by (induction start obs acc arbitrary: rs rule: collect_results.induct)
     (auto simp: Let_def split: if_splits)

lemma collect_results_cases:
  "collect_results start obs [] =
     (if (\<exists>ob \<in> set obs. snd ob - start > 50) then None
      else Some (map (validator_result \<circ> fst) obs))"
proof (cases "collect_results start obs []")
  case None
  then show ?thesis using collect_results_None [of start obs "[]"] by simp
next
  case (Some rs)
  then have "\<not> (\<exists>ob \<in> set obs. snd ob - start > 50)"
    using collect_results_None [of start obs "[]"] by simp
  moreover from Some have "rs = map (validator_result \<circ> fst) obs"
    using collect_results_Some [of start obs "[]" rs] by simp
  ultimately show ?thesis using Some by simp
qed

text \<open>
  Claim C1, as the code has it. Over the outcomes the collection loop records (true, false,
  or abstain for a validator error or per-validator timeout) and the clock readings of its
  total-timeout checks: the result is APPROVE iff no check found more than 50 ms elapsed
  and at least 3 outcomes are true; ESCALATE iff no check fired, fewer than 3 are true and
  fewer than 2 (validators minus required agreement) abstained; TIMEOUT iff a check fired
  or fewer than 3 are true with 2 or more abstentions.
\<close>

theorem VALIDATE_BYZANTINE_outcomes:
  "(VALIDATE_BYZANTINE 5 3 start obs = ''APPROVE'' \<longleftrightarrow>
      (\<not> (\<exists>ob \<in> set obs. snd ob - start > 50)
       \<and> COUNT_TRUE (map (validator_result \<circ> fst) obs) \<ge> 3))
   \<and> (VALIDATE_BYZANTINE 5 3 start obs = ''ESCALATE'' \<longleftrightarrow>
      (\<not> (\<exists>ob \<in> set obs. snd ob - start > 50)
       \<and> COUNT_TRUE (map (validator_result \<circ> fst) obs) < 3
       \<and> COUNT_NULL (map (validator_result \<circ> fst) obs) < 2))
   \<and> (VALIDATE_BYZANTINE 5 3 start obs = ''TIMEOUT'' \<longleftrightarrow>
      ((\<exists>ob \<in> set obs. snd ob - start > 50)
       \<or> (COUNT_TRUE (map (validator_result \<circ> fst) obs) < 3
           \<and> COUNT_NULL (map (validator_result \<circ> fst) obs) \<ge> 2)))"
  by (auto simp: VALIDATE_BYZANTINE_def collect_results_cases Let_def)

text \<open>
  The claim as stated fails where three validators say no and two abstain through errors,
  all within the deadline: true-count plus abstentions is 2, below 3, and no deadline
  elapsed, yet the result is TIMEOUT, not ESCALATE.
\<close>

theorem consensus_two_abstentions_counterexample:
  "collect_results 0 obs_two_abstentions [] = Some [Some False, Some False, Some False, None, None]
   \<and> COUNT_TRUE [Some False, Some False, Some False, None, None] = 0
   \<and> COUNT_NULL [Some False, Some False, Some False, None, None] = 2
   \<and> VALIDATE_BYZANTINE 5 3 0 obs_two_abstentions = ''TIMEOUT''
   \<and> VALIDATE_BYZANTINE 5 3 0 obs_two_abstentions \<noteq> ''ESCALATE''"
  by (simp add: obs_two_abstentions_def VALIDATE_BYZANTINE_def validator_result_def
        COUNT_TRUE_def COUNT_NULL_def Let_def)

subsection \<open>Confidence calibration\<close>

lemma calibrationFactor_bounds:
  "0.9 \<le> calibrationFactor_of a \<and> calibrationFactor_of a \<le> 1.1"
  by (simp add: calibrationFactor_of_def CLAMP_def Let_def)

lemma decide_phase_confidence:
  "decide_phase sv co p ctx st did key pa ps alts scores cands creq (res, lat, agreed) w
     = (Inr out, w') \<Longrightarrow> decision_of out = Some d \<Longrightarrow>
     confidence_score d =
       try_or 0.5 (CALIBRATE_CONFIDENCE sv ps
          (case alts of [] \<Rightarrow> 0 | a # _ \<Rightarrow> score_in scores a) agreed creq p ctx scores)"
  by (auto simp: decide_phase_def Let_def decision_of_def dict_get_def score_in_def
        split: sum.splits list.splits if_splits prod.splits option.splits)

text \<open>
  Claim C4, as the code has it. When the entropy of the scores is computed, the final
  confidence is the clamp to [0, 1] of
  \<open>(0.6 (primaryScore - secondaryScore) + 0.2 (1 - uncertainty) + consensusBonus -
  patternPenalty)\<close> times the calibration factor. The factor is computed from the 7-day
  accuracy recorded for the agent that the field \<open>current_agent_id\<close> of the execution
  context names (0.85 when none is recorded): the pseudocode marks that argument
  \<open>// Would get from decision\<close>, the chosen agent is not an argument of the calibration,
  and the pipeline passes the execution context of the request as it received it. The
  factor is within [0.9, 1.1] and is 1.0 at an accuracy of 0.925. The pattern penalty is 0
  for a success rate of at least 0.8 (and for a pattern without history), \<open>0.15 (1 - rate)\<close>
  for a rate below 0.8, and at most 0.15 for any rate that is not negative.
\<close>

theorem CALIBRATE_CONFIDENCE_formula:
  "(COMPUTE_ENTROPY sv (EXTRACT_SORTED_SCORES sv agentScores) = Inr entropy \<longrightarrow>
      CALIBRATE_CONFIDENCE sv primaryScore secondaryScore agreed consensusRequired pattern
          context' agentScores =
        Inr (CLAMP
               ((0.6 * (primaryScore - secondaryScore)
                 + 0.2 * (1 - uncertaintyPenalty_of entropy (length agentScores))
                 + consensusBonus_of consensusRequired agreed
                 - patternUncertaintyPenalty_of
                     (GET_PATTERN_EXECUTION_SUCCESS_RATE sv (pattern_id pattern) True))
                * calibrationFactor_of
                    (GET_AGENT_RECENT_ACCURACY sv (current_agent_id context') 7))
               0 1))
   \<and> 0.9 \<le> calibrationFactor_of accuracy \<and> calibrationFactor_of accuracy \<le> 1.1
   \<and> calibrationFactor_of (Some 0.925) = 1
   \<and> calibrationFactor_of None = calibrationFactor_of (Some 0.85)
   \<and> (\<forall>r. 0.8 \<le> r \<longrightarrow> patternUncertaintyPenalty_of (Some r) = 0)
   \<and> (\<forall>r. r < 0.8 \<longrightarrow> patternUncertaintyPenalty_of (Some r) = 0.15 * (1 - r))
   \<and> (\<forall>r. 0 \<le> r \<longrightarrow> patternUncertaintyPenalty_of (Some r) \<le> 0.15)
   \<and> patternUncertaintyPenalty_of None = 0
   \<and> (\<forall>out w' d.
         decide_phase sv co pattern context' startTime decisionId cacheKey primaryAgent
             primaryScore alternativeAgents agentScores candidates consensusRequired
             (consensusResult, consensusLatency, agreed) w = (Inr out, w')
         \<and> decision_of out = Some d \<longrightarrow>
         confidence_score d =
           try_or 0.5
             (CALIBRATE_CONFIDENCE sv primaryScore
                (case alternativeAgents of [] \<Rightarrow> 0 | a # _ \<Rightarrow> score_in agentScores a)
                agreed consensusRequired pattern context' agentScores))"
proof -
  have f: "COMPUTE_ENTROPY sv (EXTRACT_SORTED_SCORES sv agentScores) = Inr entropy \<Longrightarrow>
      CALIBRATE_CONFIDENCE sv primaryScore secondaryScore agreed consensusRequired pattern
          context' agentScores =
        Inr (CLAMP
               ((0.6 * (primaryScore - secondaryScore)
                 + 0.2 * (1 - uncertaintyPenalty_of entropy (length agentScores))
                 + consensusBonus_of consensusRequired agreed
                 - patternUncertaintyPenalty_of
                     (GET_PATTERN_EXECUTION_SUCCESS_RATE sv (pattern_id pattern) True))
                * calibrationFactor_of
                    (GET_AGENT_RECENT_ACCURACY sv (current_agent_id context') 7))
               0 1)"
    by (simp add: CALIBRATE_CONFIDENCE_def Let_def algebra_simps)
  have c: "calibrationFactor_of (Some 0.925) = 1"
          "calibrationFactor_of None = calibrationFactor_of (Some 0.85)"
    by (simp_all add: calibrationFactor_of_def CLAMP_def Let_def)
  have p: "\<forall>r. 0.8 \<le> r \<longrightarrow> patternUncertaintyPenalty_of (Some r) = 0"
          "\<forall>r. r < 0.8 \<longrightarrow> patternUncertaintyPenalty_of (Some r) = 0.15 * (1 - r)"
          "\<forall>r. 0 \<le> r \<longrightarrow> patternUncertaintyPenalty_of (Some r) \<le> 0.15"
          "patternUncertaintyPenalty_of None = 0"
    by (simp_all add: patternUncertaintyPenalty_of_def Let_def)
  have d: "\<forall>out w' d.
         decide_phase sv co pattern context' startTime decisionId cacheKey primaryAgent
             primaryScore alternativeAgents agentScores candidates consensusRequired
             (consensusResult, consensusLatency, agreed) w = (Inr out, w')
         \<and> decision_of out = Some d \<longrightarrow>
         confidence_score d =
           try_or 0.5
             (CALIBRATE_CONFIDENCE sv primaryScore
                (case alternativeAgents of [] \<Rightarrow> 0 | a # _ \<Rightarrow> score_in agentScores a)
                agreed consensusRequired pattern context' agentScores)"
    using decide_phase_confidence by blast
  show ?thesis using f c p d calibrationFactor_bounds [of accuracy] by blast
qed

theorem CALIBRATE_CONFIDENCE_formula_witness:
  "COMPUTE_ENTROPY services_example (EXTRACT_SORTED_SCORES services_example [(''agent-a'', 0.9)])
     = Inr 0
   \<and> CALIBRATE_CONFIDENCE services_example 0.9 0.5 0 False request_example context_example
         [(''agent-a'', 0.9)] = Inr 0.4356
   \<and> patternUncertaintyPenalty_of (Some 0.9) = 0
   \<and> patternUncertaintyPenalty_of (Some 0.5) = 0.075
   \<and> calibrationFactor_of None = 0.99"
  using CALIBRATE_CONFIDENCE_formula [of services_example "[(''agent-a'', 0.9)]" "0" "0.9" "0.5"
          "0" False request_example context_example None]
  by (simp add: services_example_def uncertaintyPenalty_of_def consensusBonus_of_def
        calibrationFactor_of_def patternUncertaintyPenalty_of_def CLAMP_def)

text \<open>
  The claim as stated fails in two places. It has the penalty proportional to the distance
  of the success rate below 80%: the distances of the rates 0.6 and 0.4 are 0.2 and 0.4,
  but the penalties are 0.06 and 0.09, proportional to the distance below 100%. And it
  has the factor derived from the accuracy of the chosen agent: with a 7-day accuracy of
  0.7 recorded for \<open>agent-a\<close> and of 1.0 for \<open>agent-b\<close>, the same scores calibrate to
  0.4268 when the context names \<open>agent-a\<close> and to 0.4444 when it names \<open>agent-b\<close>; and the
  pipeline, which chooses \<open>agent-a\<close> in both runs, returns the confidence 0.689864 under
  the first context and 0.718312 under the second.
\<close>

theorem pattern_penalty_not_proportional_counterexample:
  "patternUncertaintyPenalty_of (Some 0.6) = 0.06
   \<and> patternUncertaintyPenalty_of (Some 0.4) = 0.09
   \<and> patternUncertaintyPenalty_of (Some 0.6) * (0.8 - 0.4)
       \<noteq> patternUncertaintyPenalty_of (Some 0.4) * (0.8 - 0.6)
   \<and> GET_AGENT_RECENT_ACCURACY services_history ''agent-a'' 7 = Some 0.7
   \<and> GET_AGENT_RECENT_ACCURACY services_history ''agent-b'' 7 = Some 1
   \<and> current_agent_id context_example = ''agent-a''
   \<and> current_agent_id context_other = ''agent-b''
   \<and> CALIBRATE_CONFIDENCE services_history 0.9 0.5 0 False request_example context_example
         [(''agent-a'', 0.9)] = Inr 0.4268
   \<and> CALIBRATE_CONFIDENCE services_history 0.9 0.5 0 False request_example context_other
         [(''agent-a'', 0.9)] = Inr 0.4444
   \<and> map_option decision_summary
        (routed_decision (SemanticRoute services_history collaborators_primary request_example
           context_example constraints_example world_example))
      = Some (''uuid-'', ''agent-a'', 0.689864)
   \<and> map_option decision_summary
        (routed_decision (SemanticRoute services_history collaborators_primary request_example
           context_other constraints_example world_example))
      = Some (''uuid-'', ''agent-a'', 0.718312)"
  by (simp add: pipeline_defs scoring_defs example_defs upt_rec)

subsection \<open>Ranking\<close>

lemma make_pairs_Inr:
  "make_pairs agents scores = Inr pairs \<Longrightarrow>
     pairs = map (\<lambda>a. (a, score_in scores a)) agents
     \<and> (\<forall>a \<in> set agents. map_of scores (agent_id a) \<noteq> None)"
  by (induction agents arbitrary: pairs)
     (auto simp: score_in_def split: option.splits sum.splits)

lemma make_pairs_total:
  "(\<forall>a \<in> set agents. map_of scores (agent_id a) \<noteq> None) \<Longrightarrow>
     make_pairs agents scores = Inr (map (\<lambda>a. (a, score_in scores a)) agents)"
  by (induction agents) (auto simp: score_in_def split: option.splits sum.splits)

lemma orders_descending_positions:
  assumes "orders_descending keys order"
  shows "mset order = mset [0..<length keys]" and "set order = {0..<length keys}"
proof -
  from assms have s: "sort order = [0..<length keys]" by (simp add: orders_descending_def)
  have "mset order = mset (sort order)" by simp
  with s show m: "mset order = mset [0..<length keys]" by simp
  have "set order = set_mset (mset order)" by simp
  also have "\<dots> = set_mset (mset [0..<length keys])" by (simp only: m)
  finally show "set order = {0..<length keys}" by simp
qed

lemma SORT_BY_SCORE_positions:
  assumes scored: "list_all (\<lambda>a. map_of scores (agent_id a) \<noteq> None) agents"
    and sorts: "orders_descending (map (score_in scores) agents)
                  (SORT_BY (map (score_in scores) agents) True)"
  shows "SORT_BY_SCORE SORT_BY agents scores True =
           Inr (map (\<lambda>i. agents ! i) (SORT_BY (map (score_in scores) agents) True))"
proof -
  let ?pairs = "map (\<lambda>a. (a, score_in scores a)) agents"
  let ?order = "SORT_BY (map (score_in scores) agents) True"
  from scored have p: "make_pairs agents scores = Inr ?pairs"
    by (intro make_pairs_total) (simp add: list_all_iff)
  from orders_descending_positions(2) [OF sorts]
  have r: "\<forall>i \<in> set ?order. i < length agents" by simp
  then have a: "arrange ?pairs ?order = Inr (map (\<lambda>i. ?pairs ! i) ?order)"
    by (simp add: arrange_def list_all_iff)
  have f: "map fst (map (\<lambda>i. ?pairs ! i) ?order) = map (\<lambda>i. agents ! i) ?order"
    using r by simp
  have "SORT_BY_SCORE SORT_BY agents scores True =
          (case arrange ?pairs ?order of
             Inl e \<Rightarrow> Inl e
           | Inr sorted_pairs \<Rightarrow> Inr (map fst sorted_pairs))"
    by (simp add: SORT_BY_SCORE_def p comp_def)
  also have "\<dots> = Inr (map fst (map (\<lambda>i. ?pairs ! i) ?order))" by (simp only: a sum.case)
  finally show ?thesis by (simp only: f)
qed

text \<open>
  Claim C6, as the code has it. With a sort primitive that sorts by score, the ranking of
  eligible agents that all have a score is a permutation of them in descending order of
  score. It is the eligible agents laid out in the order of positions the sort primitive
  returns for their scores, and the primitive sees the scores only: the agent identifier
  is not consulted, so any other list of agents with the same scores at the same positions
  is ranked by the same rearrangement of positions, whatever the identifiers are.
\<close>

theorem SORT_BY_SCORE_ranking:
  assumes scored: "list_all (\<lambda>a. map_of scores (agent_id a) \<noteq> None) agents"
    and sorts: "orders_descending (map (score_in scores) agents)
                  (SORT_BY (map (score_in scores) agents) True)"
  shows "\<exists>ranked.
           SORT_BY_SCORE SORT_BY agents scores True = Inr ranked
           \<and> ranked = map (\<lambda>i. agents ! i) (SORT_BY (map (score_in scores) agents) True)
           \<and> mset ranked = mset agents
           \<and> sorted_wrt (\<lambda>a b. score_in scores a \<ge> score_in scores b) ranked
           \<and> (\<forall>agents' scores'.
                 list_all (\<lambda>a. map_of scores' (agent_id a) \<noteq> None) agents'
                 \<and> map (score_in scores') agents' = map (score_in scores) agents \<longrightarrow>
                 SORT_BY_SCORE SORT_BY agents' scores' True =
                   Inr (map (\<lambda>i. agents' ! i) (SORT_BY (map (score_in scores) agents) True)))"
proof -
  let ?keys = "map (score_in scores) agents"
  let ?order = "SORT_BY ?keys True"
  let ?ranked = "map (\<lambda>i. agents ! i) ?order"
  have pos: "SORT_BY_SCORE SORT_BY agents scores True = Inr ?ranked"
    using scored sorts by (rule SORT_BY_SCORE_positions)
  have r: "\<forall>i \<in> set ?order. i < length agents"
    using orders_descending_positions(2) [OF sorts] by simp
  have "mset ?ranked = image_mset (\<lambda>i. agents ! i) (mset ?order)" by simp
  also have "\<dots> = image_mset (\<lambda>i. agents ! i) (mset [0..<length agents])"
    using orders_descending_positions(1) [OF sorts] by simp
  also have "\<dots> = mset (map (\<lambda>i. agents ! i) [0..<length agents])" by simp
  also have "\<dots> = mset agents" by (simp only: map_nth)
  finally have perm: "mset ?ranked = mset agents" .
  from sorts have "sorted_wrt (\<lambda>i j. ?keys ! i \<ge> ?keys ! j) ?order"
    by (simp add: orders_descending_def)
  then have "sorted_wrt (\<lambda>i j. score_in scores (agents ! i) \<ge> score_in scores (agents ! j)) ?order"
    using r by (elim sorted_wrt_mono_rel [rotated]) simp
  then have desc: "sorted_wrt (\<lambda>a b. score_in scores a \<ge> score_in scores b) ?ranked"
    by (simp add: sorted_wrt_map)
  have blind: "SORT_BY_SCORE SORT_BY agents' scores' True = Inr (map (\<lambda>i. agents' ! i) ?order)"
    if "list_all (\<lambda>a. map_of scores' (agent_id a) \<noteq> None) agents'"
      and "map (score_in scores') agents' = ?keys" for agents' scores'
    using SORT_BY_SCORE_positions [of scores' agents' SORT_BY] that sorts by simp
  from pos perm desc blind show ?thesis by blast
qed

theorem SORT_BY_SCORE_ranking_witness:
  "list_all (\<lambda>a. map_of tie_scores (agent_id a) \<noteq> None) [agent_b, agent_a]
   \<and> orders_descending (map (score_in tie_scores) [agent_b, agent_a])
        (stable_order (map (score_in tie_scores) [agent_b, agent_a]) True)
   \<and> SORT_BY_SCORE stable_order [agent_b, agent_a] tie_scores True = Inr [agent_b, agent_a]
   \<and> mset [agent_b, agent_a] = mset [agent_a, agent_b]
   \<and> SORT_BY_SCORE stable_order [agent_a, agent_b] tie_scores True = Inr [agent_a, agent_b]"
proof -
  have sc: "list_all (\<lambda>a. map_of tie_scores (agent_id a) \<noteq> None) [agent_b, agent_a]"
    "list_all (\<lambda>a. map_of tie_scores (agent_id a) \<noteq> None) [agent_a, agent_b]"
    by (simp_all add: tie_scores_def agent_a_def agent_b_def del: not_None_eq)
  have k: "map (score_in tie_scores) [agent_b, agent_a] = [0.8, 0.8]"
    "map (score_in tie_scores) [agent_a, agent_b] = [0.8, 0.8]"
    by (simp_all add: score_in_def tie_scores_def agent_a_def agent_b_def)
  have o: "stable_order [0.8, 0.8] True = [0, 1]"
    by (simp add: stable_order_def upt_rec)
  have so: "orders_descending (map (score_in tie_scores) [agent_b, agent_a])
        (stable_order (map (score_in tie_scores) [agent_b, agent_a]) True)"
    by (simp only: k o) (simp add: orders_descending_def upt_rec)
  from SORT_BY_SCORE_ranking [where scores = tie_scores and agents = "[agent_b, agent_a]"
         and SORT_BY = stable_order, OF sc(1) so]
  obtain ranked where
    r: "SORT_BY_SCORE stable_order [agent_b, agent_a] tie_scores True = Inr ranked"
       "ranked = map (\<lambda>i. [agent_b, agent_a] ! i)
                   (stable_order (map (score_in tie_scores) [agent_b, agent_a]) True)"
       "mset ranked = mset [agent_b, agent_a]"
    and blind: "\<forall>agents' scores'.
       list_all (\<lambda>a. map_of scores' (agent_id a) \<noteq> None) agents'
       \<and> map (score_in scores') agents' = map (score_in tie_scores) [agent_b, agent_a] \<longrightarrow>
       SORT_BY_SCORE stable_order agents' scores' True =
         Inr (map (\<lambda>i. agents' ! i)
                (stable_order (map (score_in tie_scores) [agent_b, agent_a]) True))"
    by blast
  have r2: "ranked = [agent_b, agent_a]" using r(2) by (simp only: k o) simp
  have "map (score_in tie_scores) [agent_a, agent_b] = map (score_in tie_scores) [agent_b, agent_a]"
    by (simp only: k)
  with blind sc(2)
  have "SORT_BY_SCORE stable_order [agent_a, agent_b] tie_scores True =
          Inr (map (\<lambda>i. [agent_a, agent_b] ! i)
                 (stable_order (map (score_in tie_scores) [agent_b, agent_a]) True))"
    by blast
  then have b: "SORT_BY_SCORE stable_order [agent_a, agent_b] tie_scores True =
          Inr [agent_a, agent_b]"
    by (simp only: k o) simp
  from r(1,3) r2 b sc(1) so show ?thesis by simp
qed

text \<open>
  The claim as stated (ties broken by identifier, the order determined by scores and
  identifiers) fails for two agents of equal score. A stable sort returns either input
  order as it is, a sort that reverses ties returns either input order reversed: with
  each of them the same two agents with the same scores have two different rankings, one
  of which puts \<open>agent-b\<close> before \<open>agent-a\<close>.
\<close>

theorem tie_not_broken_by_id_counterexample:
  "SORT_BY_SCORE stable_order [agent_b, agent_a] tie_scores True = Inr [agent_b, agent_a]
   \<and> SORT_BY_SCORE stable_order [agent_a, agent_b] tie_scores True = Inr [agent_a, agent_b]
   \<and> SORT_BY_SCORE reversing_order [agent_a, agent_b] tie_scores True = Inr [agent_b, agent_a]
   \<and> SORT_BY_SCORE reversing_order [agent_b, agent_a] tie_scores True = Inr [agent_a, agent_b]
   \<and> orders_descending [0.8, 0.8] (stable_order [0.8, 0.8] True)
   \<and> orders_descending [0.8, 0.8] (reversing_order [0.8, 0.8] True)
   \<and> agent_id agent_a = ''agent-a'' \<and> agent_id agent_b = ''agent-b''
   \<and> dict_get tie_scores ''agent-a'' = Inr 0.8 \<and> dict_get tie_scores ''agent-b'' = Inr 0.8
   \<and> [agent_b, agent_a] \<noteq> [agent_a, agent_b]"
  by (simp add: SORT_BY_SCORE_def arrange_def stable_order_def reversing_order_def
        orders_descending_def upt_rec agent_a_def agent_b_def tie_scores_def dict_get_def
        agent_fast_def)

subsection \<open>The fallback manager\<close>

lemma BUILD_FALLBACK_DECISION_fields:
  "BUILD_FALLBACK_DECISION sv agent strategy' c r w = (d, w') \<Longrightarrow>
     fallback_applied d = Some strategy' \<and> confidence_score d = c \<and> alternatives d = []
     \<and> pa_agent_id (primary_agent d) = agent_id agent
     \<and> pa_score (primary_agent d) = GET_SUCCESS_RATE sv (agent_id agent) ''unknown''"
  by (auto simp: BUILD_FALLBACK_DECISION_def GENERATE_UUID_def CURRENT_ISO8601_TIMESTAMP_def
        CURRENT_TIME_MS_def Let_def)

lemma BUILD_FALLBACK_DECISION_shaped:
  "BUILD_FALLBACK_DECISION sv agent tag c r w = (d, w') \<Longrightarrow> fallback_shaped sv tag c d"
  using BUILD_FALLBACK_DECISION_fields [of sv agent tag c r w d w']
  by (simp add: fallback_shaped_def)

lemma strategy_alternatives_shaped:
  "strategy_alternatives sv co p w = Some (d, w') \<Longrightarrow> fallback_shaped sv ''alternatives'' 0.7 d"
  by (auto simp: strategy_alternatives_def split: sum.splits option.splits if_splits
        dest: BUILD_FALLBACK_DECISION_shaped)

lemma strategy_skill_match_shaped:
  "strategy_skill_match sv co p w = Some (d, w') \<Longrightarrow> fallback_shaped sv ''skill_match'' 0.6 d"
  by (auto simp: strategy_skill_match_def Let_def split: sum.splits list.splits if_splits
        dest: BUILD_FALLBACK_DECISION_shaped)

lemma strategy_success_history_shaped:
  "strategy_success_history sv co p w = Some (d, w') \<Longrightarrow>
     fallback_shaped sv ''success_history'' 0.55 d"
  by (auto simp: strategy_success_history_def Let_def split: sum.splits option.splits
        dest: BUILD_FALLBACK_DECISION_shaped)

lemma strategy_round_robin_shaped:
  "strategy_round_robin sv co p w = Some (d, w') \<Longrightarrow> fallback_shaped sv ''round_robin'' 0.4 d"
  by (auto simp: strategy_round_robin_def split: sum.splits prod.splits if_splits
        dest: BUILD_FALLBACK_DECISION_shaped)

lemma strategy_default_agent_shaped:
  "strategy_default_agent sv co p w = Some (d, w') \<Longrightarrow>
     fallback_shaped sv ''default_agent'' 0.3 d"
  by (auto simp: strategy_default_agent_def split: sum.splits option.splits if_splits
        dest: BUILD_FALLBACK_DECISION_shaped)

lemma chain_index_cases:
  "j < length fallbackChain \<Longrightarrow> j = 0 \<or> j = 1 \<or> j = 2 \<or> j = 3 \<or> j = 4 \<or> j = 5"
  by (auto simp: fallbackChain_def)

lemma try_strategy_decision:
  assumes "j < length fallbackChain"
    and "try_strategy sv co (fst (fallbackChain ! j)) p r w = Some (Inr d, w')"
  shows "j < 5 \<and> fallback_shaped sv (fst (fallbackChain ! j)) (spec_fallback_confidences ! j) d"
proof -
  from chain_index_cases [OF assms(1)]
  consider "j = 0" | "j = 1" | "j = 2" | "j = 3" | "j = 4" | "j = 5" by blast
  then show ?thesis
  proof cases
    case 1
    with assms(2) have "strategy_alternatives sv co p w = Some (d, w')"
      by (auto simp: fallbackChain_def try_strategy_def)
    from strategy_alternatives_shaped [OF this] 1 show ?thesis
      by (simp add: fallbackChain_def spec_fallback_confidences_def)
  next
    case 2
    with assms(2) have "strategy_skill_match sv co p w = Some (d, w')"
      by (auto simp: fallbackChain_def try_strategy_def)
    from strategy_skill_match_shaped [OF this] 2 show ?thesis
      by (simp add: fallbackChain_def spec_fallback_confidences_def)
  next
    case 3
    with assms(2) have "strategy_success_history sv co p w = Some (d, w')"
      by (auto simp: fallbackChain_def try_strategy_def)
    from strategy_success_history_shaped [OF this] 3 show ?thesis
      by (simp add: fallbackChain_def spec_fallback_confidences_def)
  next
    case 4
    with assms(2) have "strategy_round_robin sv co p w = Some (d, w')"
      by (auto simp: fallbackChain_def try_strategy_def)
    from strategy_round_robin_shaped [OF this] 4 show ?thesis
      by (simp add: fallbackChain_def spec_fallback_confidences_def)
  next
    case 5
    with assms(2) have "strategy_default_agent sv co p w = Some (d, w')"
      by (auto simp: fallbackChain_def try_strategy_def)
    from strategy_default_agent_shaped [OF this] 5 show ?thesis
      by (simp add: fallbackChain_def spec_fallback_confidences_def)
  next
    case 6
    with assms(2) show ?thesis by (simp add: fallbackChain_def try_strategy_def)
  qed
qed

lemma try_strategy_no_error:
  assumes "j < 5"
  shows "try_strategy sv co (fst (fallbackChain ! j)) p r w \<noteq> Some (Inl e, w')"
proof -
  from assms have "j = 0 \<or> j = 1 \<or> j = 2 \<or> j = 3 \<or> j = 4" by auto
  then show ?thesis
    by (auto simp: fallbackChain_def try_strategy_def)
qed

lemma try_strategy_error:
  "try_strategy sv co (fst (fallbackChain ! 5)) p r w =
     Some (Inl (NoAgentsAvailableError
             (''Cannot route pattern after exhausting fallback strategies. ''
                @ ''Reason: '' @ r)), w)"
  by (simp add: fallbackChain_def try_strategy_def)

lemma fallback_loop_first:
  "fallback_loop sv co chain p r w = (res, w') \<Longrightarrow>
     (\<exists>j<length chain. try_strategy sv co (fst (chain ! j)) p r w = Some (res, w')
         \<and> (\<forall>i<j. try_strategy sv co (fst (chain ! i)) p r w = None))
     \<or> ((\<forall>i<length chain. try_strategy sv co (fst (chain ! i)) p r w = None)
         \<and> res = Inl (RoutingError ''Fallback strategy execution completed without result'')
         \<and> w' = w)"
proof (induction chain)
  case Nil
  then show ?case by simp
next
  case (Cons item chain)
  show ?case
  proof (cases "try_strategy sv co (fst item) p r w")
    case None
    with Cons.prems have "fallback_loop sv co chain p r w = (res, w')" by simp
    from Cons.IH [OF this] show ?thesis
    proof
      assume "\<exists>j<length chain. try_strategy sv co (fst (chain ! j)) p r w = Some (res, w')
         \<and> (\<forall>i<j. try_strategy sv co (fst (chain ! i)) p r w = None)"
      then obtain j where j: "j < length chain"
        "try_strategy sv co (fst (chain ! j)) p r w = Some (res, w')"
        "\<forall>i<j. try_strategy sv co (fst (chain ! i)) p r w = None" by blast
      have "\<forall>i<Suc j. try_strategy sv co (fst ((item # chain) ! i)) p r w = None"
        using None j(3) by (auto simp: nth_Cons split: nat.splits)
      with j(1,2) have "Suc j < length (item # chain)
           \<and> try_strategy sv co (fst ((item # chain) ! Suc j)) p r w = Some (res, w')
           \<and> (\<forall>i<Suc j. try_strategy sv co (fst ((item # chain) ! i)) p r w = None)"
        by simp
      then show ?thesis by blast
    next
      assume a: "(\<forall>i<length chain. try_strategy sv co (fst (chain ! i)) p r w = None)
         \<and> res = Inl (RoutingError ''Fallback strategy execution completed without result'')
         \<and> w' = w"
      then have "\<forall>i<length (item # chain).
          try_strategy sv co (fst ((item # chain) ! i)) p r w = None"
        using None by (auto simp: nth_Cons split: nat.splits)
      with a show ?thesis by blast
    qed
  next
    case (Some x)
    with Cons.prems have "try_strategy sv co (fst ((item # chain) ! 0)) p r w = Some (res, w')"
      by simp
    then show ?thesis by fastforce
  qed
qed

lemma APPLY_FALLBACK_STRATEGY_first:
  assumes "APPLY_FALLBACK_STRATEGY sv co p ctx r lat w = (res, w')"
  shows "\<exists>j<length fallbackChain.
           try_strategy sv co (fst (fallbackChain ! j)) p r w = Some (res, w')
           \<and> (\<forall>i<j. try_strategy sv co (fst (fallbackChain ! i)) p r w = None)"
proof -
  from assms have "fallback_loop sv co fallbackChain p r w = (res, w')"
    by (simp add: APPLY_FALLBACK_STRATEGY_def)
  from fallback_loop_first [OF this] show ?thesis
  proof
    assume "(\<forall>i<length fallbackChain.
               try_strategy sv co (fst (fallbackChain ! i)) p r w = None)
         \<and> res = Inl (RoutingError ''Fallback strategy execution completed without result'')
         \<and> w' = w"
    moreover have "(5::nat) < length fallbackChain" by (simp add: fallbackChain_def)
    ultimately have "try_strategy sv co (fst (fallbackChain ! 5)) p r w = None"
      by blast
    then show ?thesis by (simp add: try_strategy_error)
  qed
qed

lemma APPLY_FALLBACK_STRATEGY_decision:
  assumes "APPLY_FALLBACK_STRATEGY sv co p ctx r lat w = (Inr d, w')"
  shows "\<exists>j<5. fallback_shaped sv (fst (fallbackChain ! j)) (spec_fallback_confidences ! j) d
            \<and> can_yield sv co p r w j
            \<and> (\<forall>i<j. \<not> can_yield sv co p r w i)"
proof -
  from APPLY_FALLBACK_STRATEGY_first [OF assms] obtain j where j:
    "j < length fallbackChain"
    "try_strategy sv co (fst (fallbackChain ! j)) p r w = Some (Inr d, w')"
    "\<forall>i<j. try_strategy sv co (fst (fallbackChain ! i)) p r w = None" by blast
  from try_strategy_decision [OF j(1,2)]
  have s: "j < 5" "fallback_shaped sv (fst (fallbackChain ! j)) (spec_fallback_confidences ! j) d"
    by simp_all
  have "can_yield sv co p r w j" using j(1,2) by (simp add: can_yield_def)
  moreover have "\<forall>i<j. \<not> can_yield sv co p r w i" using j(3) by (simp add: can_yield_def)
  ultimately show ?thesis using s by blast
qed

lemma APPLY_FALLBACK_STRATEGY_yields:
  assumes "k < 5" and "can_yield sv co p r w k"
  shows "\<exists>d w' j. APPLY_FALLBACK_STRATEGY sv co p ctx r lat w = (Inr d, w') \<and> j \<le> k
           \<and> fallback_applied d = Some (fst (fallbackChain ! j))"
proof -
  obtain res w' where a: "APPLY_FALLBACK_STRATEGY sv co p ctx r lat w = (res, w')"
    by (cases "APPLY_FALLBACK_STRATEGY sv co p ctx r lat w")
  from APPLY_FALLBACK_STRATEGY_first [OF a] obtain j where j:
    "j < length fallbackChain"
    "try_strategy sv co (fst (fallbackChain ! j)) p r w = Some (res, w')"
    "\<forall>i<j. try_strategy sv co (fst (fallbackChain ! i)) p r w = None" by blast
  from assms(2) have "try_strategy sv co (fst (fallbackChain ! k)) p r w \<noteq> None"
    by (auto simp: can_yield_def split: option.splits)
  with j(3) have jk: "j \<le> k" by (meson not_le)
  with assms(1) have j5: "j < 5" by simp
  obtain d where "res = Inr d"
    using try_strategy_no_error [OF j5, of sv co p r w _ w'] j(2) by (cases res) auto
  with a j try_strategy_decision [OF j(1), of sv co p r w d w'] jk show ?thesis
    by (auto simp: fallback_shaped_def)
qed

lemma APPLY_FALLBACK_STRATEGY_exhausted:
  assumes "\<not> (\<exists>k<5. can_yield sv co p r w k)"
  shows "APPLY_FALLBACK_STRATEGY sv co p ctx r lat w =
           (Inl (NoAgentsAvailableError
              (''Cannot route pattern after exhausting fallback strategies. ''
                 @ ''Reason: '' @ r)), w)"
proof -
  obtain res w' where a: "APPLY_FALLBACK_STRATEGY sv co p ctx r lat w = (res, w')"
    by (cases "APPLY_FALLBACK_STRATEGY sv co p ctx r lat w")
  from APPLY_FALLBACK_STRATEGY_first [OF a] obtain j where j:
    "j < length fallbackChain"
    "try_strategy sv co (fst (fallbackChain ! j)) p r w = Some (res, w')"
    "\<forall>i<j. try_strategy sv co (fst (fallbackChain ! i)) p r w = None" by blast
  have "j = 5"
  proof (rule ccontr)
    assume "j \<noteq> 5"
    with j(1) have j5: "j < 5" by (simp add: fallbackChain_def)
    obtain d where "res = Inr d"
      using try_strategy_no_error [OF j5, of sv co p r w _ w'] j(2) by (cases res) auto
    with j(1,2) have "can_yield sv co p r w j" by (simp add: can_yield_def)
    with j5 assms show False by blast
  qed
  with j(2) a show ?thesis by (simp add: try_strategy_error)
qed

lemma fallbackChain_distinct: "distinct (map fst fallbackChain)"
  by (simp add: fallbackChain_def)

text \<open>
  Claim C3. The chain lists the six strategies in the order alternatives, skill match,
  success history, round robin, default agent, error. A decision the manager returns is
  tagged with the first strategy of the chain that yields in the state it was called in,
  and carries that strategy's confidence; so when strategy \<open>k\<close> can yield, a decision is
  returned whose tag is that of a strategy at position \<open>k\<close> or before, never of a later
  one. When no agent-selecting strategy yields, the manager raises the terminal error with
  the original reason. The confidences 0.7, 0.6, 0.55, 0.4, 0.3 are strictly decreasing and
  at most 0.7.
\<close>

theorem fallback_chain_order:
  "map fst fallbackChain =
     [''alternatives'', ''skill_match'', ''success_history'', ''round_robin'',
      ''default_agent'', ''error'']
   \<and> (\<forall>d w'. APPLY_FALLBACK_STRATEGY sv co pattern context' failureReason latencySoFar w
                = (Inr d, w') \<longrightarrow>
        (\<exists>j<5. fallback_applied d = Some (fst (fallbackChain ! j))
               \<and> confidence_score d = spec_fallback_confidences ! j
               \<and> can_yield sv co pattern failureReason w j
               \<and> (\<forall>i<j. \<not> can_yield sv co pattern failureReason w i)))
   \<and> (\<forall>k<5. can_yield sv co pattern failureReason w k \<longrightarrow>
        (\<exists>d w' j. APPLY_FALLBACK_STRATEGY sv co pattern context' failureReason latencySoFar w
                    = (Inr d, w')
                 \<and> j \<le> k \<and> fallback_applied d = Some (fst (fallbackChain ! j))
                 \<and> (\<forall>m. k < m \<and> m < 6 \<longrightarrow>
                        fallback_applied d \<noteq> Some (fst (fallbackChain ! m)))))
   \<and> (\<not> (\<exists>k<5. can_yield sv co pattern failureReason w k) \<longrightarrow>
        APPLY_FALLBACK_STRATEGY sv co pattern context' failureReason latencySoFar w =
          (Inl (NoAgentsAvailableError
             (''Cannot route pattern after exhausting fallback strategies. ''
                @ ''Reason: '' @ failureReason)), w))
   \<and> spec_fallback_confidences = [0.7, 0.6, 0.55, 0.4, 0.3]
   \<and> sorted_wrt (\<lambda>a b. a > b) spec_fallback_confidences
   \<and> (\<forall>c \<in> set spec_fallback_confidences. c \<le> 0.7)"
proof -
  have 1: "map fst fallbackChain =
     [''alternatives'', ''skill_match'', ''success_history'', ''round_robin'',
      ''default_agent'', ''error'']"
    by (simp add: fallbackChain_def)
  have 2: "\<forall>d w'. APPLY_FALLBACK_STRATEGY sv co pattern context' failureReason latencySoFar w
                = (Inr d, w') \<longrightarrow>
        (\<exists>j<5. fallback_applied d = Some (fst (fallbackChain ! j))
               \<and> confidence_score d = spec_fallback_confidences ! j
               \<and> can_yield sv co pattern failureReason w j
               \<and> (\<forall>i<j. \<not> can_yield sv co pattern failureReason w i))"
    using APPLY_FALLBACK_STRATEGY_decision [of sv co pattern context' failureReason latencySoFar w]
    unfolding fallback_shaped_def by blast
  have later: "fst (fallbackChain ! j) \<noteq> fst (fallbackChain ! m)"
    if "j \<le> k" "k < m" "m < 6" for j k m :: nat
  proof -
    have jl: "j < length fallbackChain" and ml: "m < length fallbackChain" and jm: "j \<noteq> m"
      using that by (simp_all add: fallbackChain_def)
    have "(map fst fallbackChain ! j = map fst fallbackChain ! m) = (j = m)"
      using jl ml by (intro nth_eq_iff_index_eq fallbackChain_distinct) simp_all
    then show ?thesis using jl ml jm by simp
  qed
  have 3: "\<forall>k<5. can_yield sv co pattern failureReason w k \<longrightarrow>
        (\<exists>d w' j. APPLY_FALLBACK_STRATEGY sv co pattern context' failureReason latencySoFar w
                    = (Inr d, w')
                 \<and> j \<le> k \<and> fallback_applied d = Some (fst (fallbackChain ! j))
                 \<and> (\<forall>m. k < m \<and> m < 6 \<longrightarrow>
                        fallback_applied d \<noteq> Some (fst (fallbackChain ! m))))"
  proof (intro allI impI)
    fix k :: nat
    assume k: "k < 5" and y: "can_yield sv co pattern failureReason w k"
    from APPLY_FALLBACK_STRATEGY_yields [OF k y, of context' latencySoFar]
    obtain d w' j where r:
      "APPLY_FALLBACK_STRATEGY sv co pattern context' failureReason latencySoFar w = (Inr d, w')"
      "j \<le> k" "fallback_applied d = Some (fst (fallbackChain ! j))" by blast
    have "\<forall>m. k < m \<and> m < 6 \<longrightarrow> fallback_applied d \<noteq> Some (fst (fallbackChain ! m))"
      using later [OF r(2)] r(3) by simp
    with r show "\<exists>d w' j. APPLY_FALLBACK_STRATEGY sv co pattern context' failureReason
                    latencySoFar w = (Inr d, w')
                 \<and> j \<le> k \<and> fallback_applied d = Some (fst (fallbackChain ! j))
                 \<and> (\<forall>m. k < m \<and> m < 6 \<longrightarrow>
                        fallback_applied d \<noteq> Some (fst (fallbackChain ! m)))"
      by blast
  qed
  have 4: "\<not> (\<exists>k<5. can_yield sv co pattern failureReason w k) \<longrightarrow>
        APPLY_FALLBACK_STRATEGY sv co pattern context' failureReason latencySoFar w =
          (Inl (NoAgentsAvailableError
             (''Cannot route pattern after exhausting fallback strategies. ''
                @ ''Reason: '' @ failureReason)), w)"
    using APPLY_FALLBACK_STRATEGY_exhausted by blast
  have 5: "spec_fallback_confidences = [0.7, 0.6, 0.55, 0.4, 0.3]
   \<and> sorted_wrt (\<lambda>a b. a > b) spec_fallback_confidences
   \<and> (\<forall>c \<in> set spec_fallback_confidences. c \<le> 0.7)"
    by (simp add: spec_fallback_confidences_def)
  from 1 2 3 4 5 show ?thesis by blast
qed

lemma round_robin_yields_example:
  "can_yield services_example collaborators_example request_example
     ''No agents match constraints'' world_example 3"
  by (simp add: can_yield_def fallbackChain_def try_strategy_def strategy_round_robin_def
        collaborators_example_def BUILD_FALLBACK_DECISION_def GENERATE_UUID_def
        CURRENT_ISO8601_TIMESTAMP_def CURRENT_TIME_MS_def world_example_def)

theorem fallback_chain_order_witness:
  "can_yield services_example collaborators_example request_example
     ''No agents match constraints'' world_example 3
   \<and> (\<exists>d w' j. APPLY_FALLBACK_STRATEGY services_example collaborators_example request_example
                  context_example ''No agents match constraints'' 5 world_example = (Inr d, w')
              \<and> j \<le> 3 \<and> fallback_applied d = Some (fst (fallbackChain ! j))
              \<and> fallback_applied d \<noteq> Some (fst (fallbackChain ! 4)))"
proof -
  note t = fallback_chain_order [of services_example collaborators_example request_example
      context_example "''No agents match constraints''" 5 world_example,
      THEN conjunct2, THEN conjunct2, THEN conjunct1, rule_format, of 3]
  have "(3::nat) < 5" by simp
  from t [OF this round_robin_yields_example] show ?thesis
    using round_robin_yields_example by fastforce
qed

text \<open>
  Claim C10. Every decision the fallback manager returns (each is built by one of its five
  agent-selecting strategies through \<open>BUILD_FALLBACK_DECISION\<close>) has an empty list of
  alternatives, and the score recorded for its primary agent is what \<open>GET_SUCCESS_RATE\<close>
  gives for that agent and the pattern type \<open>unknown\<close>; the scoring engine is not called.
\<close>

theorem fallback_decision_alternatives_and_score:
  "(\<forall>d w'. APPLY_FALLBACK_STRATEGY sv co pattern context' failureReason latencySoFar w
               = (Inr d, w') \<longrightarrow>
       alternatives d = []
       \<and> pa_score (primary_agent d) =
           GET_SUCCESS_RATE sv (pa_agent_id (primary_agent d)) ''unknown'')
   \<and> alternatives (fst (BUILD_FALLBACK_DECISION sv agent tag c reason w)) = []
   \<and> primary_agent (fst (BUILD_FALLBACK_DECISION sv agent tag c reason w)) =
       \<lparr> pa_agent_id = agent_id agent, pa_name = Some (name agent),
         pa_score = GET_SUCCESS_RATE sv (agent_id agent) ''unknown'' \<rparr>"
proof -
  have "\<forall>d w'. APPLY_FALLBACK_STRATEGY sv co pattern context' failureReason latencySoFar w
               = (Inr d, w') \<longrightarrow>
       alternatives d = []
       \<and> pa_score (primary_agent d) =
           GET_SUCCESS_RATE sv (pa_agent_id (primary_agent d)) ''unknown''"
    using APPLY_FALLBACK_STRATEGY_decision [of sv co pattern context' failureReason latencySoFar w]
    unfolding fallback_shaped_def by blast
  moreover have "alternatives (fst (BUILD_FALLBACK_DECISION sv agent tag c reason w)) = []
   \<and> primary_agent (fst (BUILD_FALLBACK_DECISION sv agent tag c reason w)) =
       \<lparr> pa_agent_id = agent_id agent, pa_name = Some (name agent),
         pa_score = GET_SUCCESS_RATE sv (agent_id agent) ''unknown'' \<rparr>"
    by (simp add: BUILD_FALLBACK_DECISION_def GENERATE_UUID_def CURRENT_ISO8601_TIMESTAMP_def
          CURRENT_TIME_MS_def Let_def)
  ultimately show ?thesis by blast
qed

lemma fallback_returns_example:
  "\<exists>d w'. APPLY_FALLBACK_STRATEGY services_example collaborators_example request_example
            context_example ''No agents match constraints'' 5 world_example = (Inr d, w')
          \<and> pa_agent_id (primary_agent d) = ''agent-a''"
  by (simp add: APPLY_FALLBACK_STRATEGY_def fallbackChain_def try_strategy_def
        strategy_alternatives_def strategy_skill_match_def strategy_success_history_def
        strategy_round_robin_def EXTRACT_SKILLS_def request_example_def
        collaborators_example_def BUILD_FALLBACK_DECISION_def GENERATE_UUID_def
        CURRENT_ISO8601_TIMESTAMP_def CURRENT_TIME_MS_def world_example_def agent_a_def)

theorem fallback_decision_alternatives_and_score_witness:
  "\<exists>d w'. APPLY_FALLBACK_STRATEGY services_example collaborators_example request_example
            context_example ''No agents match constraints'' 5 world_example = (Inr d, w')
          \<and> pa_agent_id (primary_agent d) = ''agent-a''
          \<and> alternatives d = []
          \<and> pa_score (primary_agent d) = GET_SUCCESS_RATE services_example ''agent-a'' ''unknown''"
  using fallback_returns_example
    fallback_decision_alternatives_and_score [of services_example collaborators_example
      request_example context_example "''No agents match constraints''" 5 world_example]
  by fastforce

subsection \<open>Scores and confidences lie in [0, 1]\<close>

lemma unit_interval_CLAMP: "unit_interval (CLAMP v 0 1)"
  by (simp add: unit_interval_def CLAMP_def)

lemma expertScores_of_unit:
  "unit_interval (similarity (expertScores_of sv agent p c cs sims))
   \<and> unit_interval (metadata (expertScores_of sv agent p c cs sims))
   \<and> unit_interval (success_rate (expertScores_of sv agent p c cs sims))
   \<and> unit_interval (recency (expertScores_of sv agent p c cs sims))
   \<and> unit_interval (team_diversity (expertScores_of sv agent p c cs sims))
   \<and> unit_interval (latency_fit (expertScores_of sv agent p c cs sims))
   \<and> unit_interval (context_relevance (expertScores_of sv agent p c cs sims))
   \<and> unit_interval (confidence_calibration (expertScores_of sv agent p c cs sims))"
  by (simp add: expertScores_of_def normalize_scores_def unit_interval_CLAMP)

lemma weighted_sum_eq:
  "weighted_sum s =
     similarity s * 0.25 + metadata s * 0.15 + success_rate s * 0.20 + recency s * 0.10
     + team_diversity s * 0.10 + latency_fit s * 0.10 + context_relevance s * 0.07
     + confidence_calibration s * 0.03"
  by (simp add: weighted_sum_def values_of_def weights_def)

lemma weighted_sum_unit:
  assumes "unit_interval (similarity s)" "unit_interval (metadata s)"
    "unit_interval (success_rate s)" "unit_interval (recency s)"
    "unit_interval (team_diversity s)" "unit_interval (latency_fit s)"
    "unit_interval (context_relevance s)" "unit_interval (confidence_calibration s)"
  shows "unit_interval (weighted_sum s)"
proof -
  have e: "weighted_sum s =
     similarity s / 4 + metadata s * 3 / 20 + success_rate s / 5 + recency s / 10
     + team_diversity s / 10 + latency_fit s / 10 + context_relevance s * 7 / 100
     + confidence_calibration s * 3 / 100"
    by (simp add: weighted_sum_eq)
  show ?thesis
    using assms unfolding e unit_interval_def by linarith
qed

lemma weights_assertion_holds: "weights_assertion"
  by (simp add: weights_assertion_def weightSum_def values_of_def weights_def)

lemma COMPUTE_EXPERT_SCORE_eq:
  "COMPUTE_EXPERT_SCORE sv agent p c cs sims =
     Inr (weighted_sum (expertScores_of sv agent p c cs sims))"
proof -
  have "unit_interval (weighted_sum (expertScores_of sv agent p c cs sims))"
    using expertScores_of_unit [of sv agent p c cs sims] by (intro weighted_sum_unit) simp_all
  then have "CLAMP (weighted_sum (expertScores_of sv agent p c cs sims)) 0 1 =
             weighted_sum (expertScores_of sv agent p c cs sims)"
    by (simp add: unit_interval_def CLAMP_id)
  then show ?thesis
    by (simp add: COMPUTE_EXPERT_SCORE_def weights_assertion_holds Let_def)
qed

lemma CALIBRATE_CONFIDENCE_unit:
  "unit_interval (try_or 0.5 (CALIBRATE_CONFIDENCE sv ps ss agreed req p c scores))"
  by (auto simp: CALIBRATE_CONFIDENCE_def try_or_def Let_def CLAMP_unit unit_interval_def
        split: sum.splits)

lemma spec_confidences_unit: "j < 5 \<Longrightarrow> unit_interval (spec_fallback_confidences ! j)"
proof -
  assume "j < 5"
  then have "j = 0 \<or> j = 1 \<or> j = 2 \<or> j = 3 \<or> j = 4" by auto
  then show ?thesis by (auto simp: spec_fallback_confidences_def unit_interval_def)
qed

lemma APPLY_FALLBACK_STRATEGY_unit:
  "APPLY_FALLBACK_STRATEGY sv co p ctx r lat w = (Inr d, w') \<Longrightarrow>
     unit_interval (confidence_score d)"
  using APPLY_FALLBACK_STRATEGY_decision [of sv co p ctx r lat w d w'] spec_confidences_unit
  by (auto simp: fallback_shaped_def)

lemma fallback_output_unit:
  assumes "APPLY_FALLBACK_STRATEGY sv co p ctx r lat w = (res, w1)"
    and "map_sum id DecisionOnly res = Inr out" and "decision_of out = Some d"
  shows "unit_interval (confidence_score d)"
proof -
  from assms(2) obtain d' where "res = Inr d'" "out = DecisionOnly d'" by (cases res) auto
  with assms(1,3) APPLY_FALLBACK_STRATEGY_unit [of sv co p ctx r lat w d' w1] show ?thesis
    by (simp add: decision_of_def)
qed

lemma ROUTE_BY_METADATA_unit:
  "ROUTE_BY_METADATA sv co p ctx lat w = (Inr out, w') \<Longrightarrow> decision_of out = Some d \<Longrightarrow>
     unit_interval (confidence_score d)"
  by (auto simp: ROUTE_BY_METADATA_def Let_def decision_of_def unit_interval_def
        split: sum.splits list.splits if_splits prod.splits)

lemma decide_phase_unit:
  "decide_phase sv co p ctx st did key pa ps alts scores cands creq cout w = (Inr out, w') \<Longrightarrow>
     decision_of out = Some d \<Longrightarrow> unit_interval (confidence_score d)"
  using CALIBRATE_CONFIDENCE_unit
  by (auto simp: decide_phase_def Let_def decision_of_def
        split: sum.splits list.splits if_splits prod.splits)

lemma rank_phase_unit:
  "rank_phase sv co p ctx rc st did key cands w = (Inr out, w') \<Longrightarrow>
     decision_of out = Some d \<Longrightarrow> unit_interval (confidence_score d)"
  by (auto simp: rank_phase_def Let_def
        split: sum.splits list.splits if_splits prod.splits
        dest: fallback_output_unit decide_phase_unit)

lemma search_phase_unit:
  "search_phase sv co p ctx rc st did key w = (Inr out, w') \<Longrightarrow>
     decision_of out = Some d \<Longrightarrow> unit_interval (confidence_score d)"
  by (auto simp: search_phase_def Let_def
        split: sum.splits list.splits if_splits prod.splits option.splits
        dest: ROUTE_BY_METADATA_unit rank_phase_unit)

lemma CACHE_GET_ok:
  "cached_confidences_ok w \<Longrightarrow> CACHE_GET w' key = Some d \<Longrightarrow> cache w' = cache w \<Longrightarrow>
     unit_interval (confidence_score d)"
  by (auto simp: cached_confidences_ok_def CACHE_GET_def list_all_iff
        split: option.splits prod.splits if_splits dest!: map_of_SomeD)

lemma SemanticRoute_unit:
  "cached_confidences_ok w \<Longrightarrow> SemanticRoute sv co p ctx rc w = (Inr out, w') \<Longrightarrow>
     decision_of out = Some d \<Longrightarrow> unit_interval (confidence_score d)"
  apply (simp add: SemanticRoute_def Let_def CURRENT_TIME_MS_def GENERATE_UUID_def
        split: prod.splits option.splits)
  apply (auto simp: decision_of_def dest: search_phase_unit CACHE_GET_ok)
  done

lemma BUILD_FALLBACK_DECISION_cache:
  "BUILD_FALLBACK_DECISION sv agent tag c r w = (d, w') \<Longrightarrow> cache w' = cache w"
  by (auto simp: BUILD_FALLBACK_DECISION_def GENERATE_UUID_def CURRENT_ISO8601_TIMESTAMP_def
        CURRENT_TIME_MS_def Let_def)

lemma try_strategy_cache:
  "try_strategy sv co nm p r w = Some (res, w') \<Longrightarrow> cache w' = cache w"
  by (auto simp: try_strategy_def strategy_alternatives_def strategy_skill_match_def
        strategy_success_history_def strategy_round_robin_def strategy_default_agent_def Let_def
        split: if_splits sum.splits option.splits list.splits prod.splits
        dest!: BUILD_FALLBACK_DECISION_cache)

lemma fallback_loop_cache:
  "fallback_loop sv co chain p r w = (res, w') \<Longrightarrow> cache w' = cache w"
  by (induction chain) (auto split: option.splits dest: try_strategy_cache)

lemma APPLY_FALLBACK_STRATEGY_cache:
  "APPLY_FALLBACK_STRATEGY sv co p ctx r lat w = (res, w') \<Longrightarrow> cache w' = cache w"
  by (simp add: APPLY_FALLBACK_STRATEGY_def fallback_loop_cache)

lemma ROUTE_BY_METADATA_cache:
  "ROUTE_BY_METADATA sv co p ctx lat w = (res, w') \<Longrightarrow> cache w' = cache w"
  by (auto simp: ROUTE_BY_METADATA_def BUILD_ERROR_DECISION_def GENERATE_UUID_def
        CURRENT_ISO8601_TIMESTAMP_def CURRENT_TIME_MS_def Let_def
        split: sum.splits list.splits if_splits prod.splits)

lemma wait_for_tasks_cache:
  "wait_for_tasks st tasks i w = (obs, w') \<Longrightarrow> cache w' = cache w"
  by (induction st tasks i w arbitrary: obs w' rule: wait_for_tasks.induct)
     (auto simp: CURRENT_TIME_MS_def Let_def split: if_splits prod.splits)

lemma consensus_phase_cache:
  "consensus_phase sv co creq pa alts p ctx w = (res, w') \<Longrightarrow> cache w' = cache w"
  by (auto simp: consensus_phase_def CURRENT_TIME_MS_def Let_def
        split: if_splits prod.splits dest!: wait_for_tasks_cache)

lemma cache_extended_iff:
  "cache_extended w w' \<longleftrightarrow>
     (cache w' = cache w
      \<or> (\<exists>key d expires. cache w' = (key, d, expires) # cache w
              \<and> unit_interval (confidence_score d)))"
  by (auto simp: cache_extended_def split: list.splits)

lemma cache_extended_same: "cache w' = cache w \<Longrightarrow> cache_extended w w'"
  by (simp add: cache_extended_iff)

lemma cache_extended_ok:
  "cache_extended w w' \<Longrightarrow> cached_confidences_ok w \<Longrightarrow> cached_confidences_ok w'"
  by (auto simp: cache_extended_iff cached_confidences_ok_def)

lemma decide_phase_cache:
  "decide_phase sv co p ctx st did key pa ps alts scores cands creq cout w = (res, w') \<Longrightarrow>
     cache_extended w w'"
  using CALIBRATE_CONFIDENCE_unit
  by (auto simp: decide_phase_def Let_def CACHE_SET_def CURRENT_TIME_MS_def
        CURRENT_ISO8601_TIMESTAMP_def SNAPSHOT_CONTEXT_def cache_extended_iff
        split: sum.splits list.splits if_splits prod.splits)

lemma rank_phase_cache:
  "rank_phase sv co p ctx rc st did key cands w = (res, w') \<Longrightarrow> cache_extended w w'"
  apply (auto simp: rank_phase_def Let_def CURRENT_TIME_MS_def
        split: sum.splits list.splits if_splits prod.splits
        dest!: APPLY_FALLBACK_STRATEGY_cache consensus_phase_cache decide_phase_cache)
  apply (auto simp: cache_extended_iff)
  done

lemma search_phase_cache:
  "search_phase sv co p ctx rc st did key w = (res, w') \<Longrightarrow> cache_extended w w'"
  apply (auto simp: search_phase_def Let_def CURRENT_TIME_MS_def
        split: sum.splits list.splits if_splits prod.splits option.splits
        dest!: ROUTE_BY_METADATA_cache rank_phase_cache)
  apply (auto simp: cache_extended_iff)
  done

lemma SemanticRoute_cache:
  "SemanticRoute sv co p ctx rc w = (res, w') \<Longrightarrow> cache_extended w w'"
  apply (auto simp: SemanticRoute_def Let_def CURRENT_TIME_MS_def GENERATE_UUID_def
        split: prod.splits option.splits dest!: search_phase_cache)
  apply (auto simp: cache_extended_iff)
  done

lemma SemanticRoute_keeps_cache_ok:
  "cached_confidences_ok w \<Longrightarrow> SemanticRoute sv co p ctx rc w = (res, w') \<Longrightarrow>
     cached_confidences_ok w'"
  using SemanticRoute_cache cache_extended_ok by blast

lemma primary_route_example:
  "\<exists>d lat w1. SemanticRoute services_example collaborators_primary request_example
        context_example constraints_example world_example
          = (Inr (DecisionWithLatency d lat), w1)
      \<and> fallback_applied d = None \<and> pa_agent_id (primary_agent d) = ''agent-a''"
  by (simp add: SemanticRoute_def search_phase_def rank_phase_def decide_phase_def
        consensus_phase_def score_agents_def COMPUTE_EXPERT_SCORE_eq try_or_def
        SORT_BY_SCORE_def arrange_def stable_order_def dict_get_def BUILD_ALTERNATIVES_def
        SNAPSHOT_CONTEXT_def CLOCK_NOW_def
        CACHE_GET_def CACHE_SET_def CURRENT_TIME_MS_def CURRENT_ISO8601_TIMESTAMP_def
        GENERATE_UUID_def collaborators_primary_def collaborators_example_def
        services_example_def request_example_def world_example_def agent_a_def
        constraints_example_def Let_def)

text \<open>
  Claim C9. For every agent, request, context and candidate set, each of the eight expert
  scores the engine holds after its normalisation loop lies in [0, 1]; the weighted sum of
  these scores lies in [0, 1] and is the score \<open>COMPUTE_EXPERT_SCORE\<close> returns. The
  confidence of the primary path (the calibrated value, or 0.5 when calibration fails)
  lies in [0, 1], as does the confidence of every decision of the fallback manager. So
  when every cached decision has its confidence in [0, 1], every decision the pipeline
  returns has, and the cache keeps that property.
\<close>

theorem scores_and_confidence_in_unit_interval:
  "unit_interval (similarity (expertScores_of sv agent pattern context' candidates sims))
   \<and> unit_interval (metadata (expertScores_of sv agent pattern context' candidates sims))
   \<and> unit_interval (success_rate (expertScores_of sv agent pattern context' candidates sims))
   \<and> unit_interval (recency (expertScores_of sv agent pattern context' candidates sims))
   \<and> unit_interval (team_diversity (expertScores_of sv agent pattern context' candidates sims))
   \<and> unit_interval (latency_fit (expertScores_of sv agent pattern context' candidates sims))
   \<and> unit_interval (context_relevance (expertScores_of sv agent pattern context' candidates sims))
   \<and> unit_interval
        (confidence_calibration (expertScores_of sv agent pattern context' candidates sims))
   \<and> unit_interval (weighted_sum (expertScores_of sv agent pattern context' candidates sims))
   \<and> COMPUTE_EXPERT_SCORE sv agent pattern context' candidates sims =
        Inr (weighted_sum (expertScores_of sv agent pattern context' candidates sims))
   \<and> unit_interval
        (try_or 0.5 (CALIBRATE_CONFIDENCE sv primaryScore secondaryScore agreed
                       consensusRequired pattern context' agentScores))
   \<and> (\<forall>d w'. APPLY_FALLBACK_STRATEGY sv co pattern context' failureReason latencySoFar w
                = (Inr d, w') \<longrightarrow> unit_interval (confidence_score d))
   \<and> (cached_confidences_ok w \<longrightarrow>
        (\<forall>res w'. SemanticRoute sv co pattern context' routingConstraints w = (res, w') \<longrightarrow>
            cached_confidences_ok w'
            \<and> (\<forall>out d. res = Inr out \<and> decision_of out = Some d \<longrightarrow>
                   unit_interval (confidence_score d))))"
proof -
  have e: "unit_interval (similarity (expertScores_of sv agent pattern context' candidates sims))
   \<and> unit_interval (metadata (expertScores_of sv agent pattern context' candidates sims))
   \<and> unit_interval (success_rate (expertScores_of sv agent pattern context' candidates sims))
   \<and> unit_interval (recency (expertScores_of sv agent pattern context' candidates sims))
   \<and> unit_interval (team_diversity (expertScores_of sv agent pattern context' candidates sims))
   \<and> unit_interval (latency_fit (expertScores_of sv agent pattern context' candidates sims))
   \<and> unit_interval (context_relevance (expertScores_of sv agent pattern context' candidates sims))
   \<and> unit_interval
        (confidence_calibration (expertScores_of sv agent pattern context' candidates sims))"
    by (rule expertScores_of_unit)
  then have s: "unit_interval
      (weighted_sum (expertScores_of sv agent pattern context' candidates sims))"
    by (intro weighted_sum_unit) simp_all
  have f: "\<forall>d w'. APPLY_FALLBACK_STRATEGY sv co pattern context' failureReason latencySoFar w
                = (Inr d, w') \<longrightarrow> unit_interval (confidence_score d)"
    using APPLY_FALLBACK_STRATEGY_unit by blast
  have r: "cached_confidences_ok w \<longrightarrow>
        (\<forall>res w'. SemanticRoute sv co pattern context' routingConstraints w = (res, w') \<longrightarrow>
            cached_confidences_ok w'
            \<and> (\<forall>out d. res = Inr out \<and> decision_of out = Some d \<longrightarrow>
                   unit_interval (confidence_score d)))"
    using SemanticRoute_keeps_cache_ok SemanticRoute_unit by blast
  from e s f r COMPUTE_EXPERT_SCORE_eq [of sv agent pattern context' candidates sims]
    CALIBRATE_CONFIDENCE_unit [of sv primaryScore secondaryScore agreed consensusRequired
      pattern context' agentScores]
  show ?thesis by blast
qed

theorem scores_and_confidence_in_unit_interval_witness:
  "cached_confidences_ok world_example
   \<and> (\<exists>d lat w1. SemanticRoute services_example collaborators_primary request_example
          context_example constraints_example world_example
          = (Inr (DecisionWithLatency d lat), w1)
        \<and> unit_interval (confidence_score d) \<and> cached_confidences_ok w1)"
proof -
  have c: "cached_confidences_ok world_example"
    by (simp add: cached_confidences_ok_def world_example_def)
  from primary_route_example obtain d lat w1 where
    r: "SemanticRoute services_example collaborators_primary request_example
          context_example constraints_example world_example
          = (Inr (DecisionWithLatency d lat), w1)"
    by blast
  have o: "decision_of (DecisionWithLatency d lat) = Some d" by (simp add: decision_of_def)
  note t = scores_and_confidence_in_unit_interval [of services_example _ request_example
      context_example _ _ _ _ _ _ _ collaborators_primary _ _ world_example
      constraints_example]
  from t c r o have "unit_interval (confidence_score d) \<and> cached_confidences_ok w1"
    by blast
  with c r show ?thesis by blast
qed

subsection \<open>Repeated invocation\<close>














































end
